theory Spec2Isabelle
  imports Main "HOL-Library.Word"
begin

unbundle bit_operations_syntax

section \<open>Text helpers of the Go runtime used by the allocator\<close>

text \<open>
  Go's \<open>%d\<close> verb renders an \<open>int\<close> in decimal, with a leading minus for negative
  values. Go's \<open>int\<close> is 64 bits wide; every quantity the allocator computes is a small
  sum of octets, ports and cluster counts, so integers are modelled as \<open>int\<close>.
\<close>

fun decimal :: "nat \<Rightarrow> nat list" where
  "decimal n = (if n < 10 then [n] else decimal (n div 10) @ [n mod 10])"

declare decimal.simps [simp del]

definition digit :: "nat \<Rightarrow> char" where
  "digit k = ''0123456789'' ! k"

definition fmt_nat :: "nat \<Rightarrow> string" where
  "fmt_nat n = map digit (decimal n)"

definition fmt_d :: "int \<Rightarrow> string" where
  "fmt_d i = (if i < 0 then CHR ''-'' # fmt_nat (nat (- i)) else fmt_nat (nat i))"

text \<open>\<open>strings.Split(s, sep)\<close> for a one-character separator: the fields between the
  separators, \<open>[s]\<close> itself when there is none.\<close>

fun Split :: "string \<Rightarrow> char \<Rightarrow> string list" where
  "Split [] sep = [[]]"
| "Split (c # cs) sep =
     (if c = sep then [] # Split cs sep
      else (case Split cs sep of f # fs \<Rightarrow> (c # f) # fs | [] \<Rightarrow> [[c]]))"

text \<open>\<open>strings.Contains(s, sub)\<close>.\<close>

fun Contains_str :: "string \<Rightarrow> string \<Rightarrow> bool" where
  "Contains_str [] sub = (sub = [])"
| "Contains_str (c # cs) sub = (take (length sub) (c # cs) = sub \<or> Contains_str cs sub)"

text \<open>Go's integer division truncates towards zero.\<close>

definition quo :: "int \<Rightarrow> int \<Rightarrow> int" where
  "quo a b = (if (a < 0) = (b < 0) then \<bar>a\<bar> div \<bar>b\<bar> else - (\<bar>a\<bar> div \<bar>b\<bar>))"

section \<open>The allocation ledger (pkg/config, pkg/services/metallb.go)\<close>

record MetalLBAllocation =
  ClusterName :: string
  IPPrefix :: string
  StartOctet :: int
  EndOctet :: int
  NodeIPs :: "int list"
  IPRange :: string

text \<open>Of \<open>ProjectConfig\<close> only the project name and the allocation list matter here; the
  other fields are settings that the allocator neither reads nor changes.\<close>

record ProjectConfig =
  Project :: string
  MetalLBAllocations :: "MetalLBAllocation list"

text \<open>The configuration directory: per project the file is absent, present but
  unreadable or unparsable, or holds a configuration. Marshalling to YAML and back is
  taken to return the stored value. \<open>writable\<close> says whether writing a file succeeds.\<close>

datatype file_state = Missing | Unreadable | Stored ProjectConfig

record ConfigManager =
  files :: "string \<Rightarrow> file_state"
  writable :: bool

datatype error =
    LoadConfigFailed
  | SaveConfigFailed
  | InvalidAddress
  | CapacityExceeded
  | ClientManagerFailed
  | ApplyManifestFailed

definition LoadConfig :: "ConfigManager \<Rightarrow> string \<Rightarrow> error + ProjectConfig option" where
  "LoadConfig cm project =
     (case files cm project of
        Missing \<Rightarrow> Inr None
      | Unreadable \<Rightarrow> Inl LoadConfigFailed
      | Stored c \<Rightarrow> Inr (Some c))"

definition SaveConfig :: "ConfigManager \<Rightarrow> string \<Rightarrow> ProjectConfig \<Rightarrow> error + ConfigManager" where
  "SaveConfig cm project c =
     (if writable cm then Inr (cm\<lparr>files := (files cm)(project := Stored c)\<rparr>)
      else Inl SaveConfigFailed)"

text \<open>The manager. The two \<open>map[...]bool\<close> fields only ever store \<open>true\<close>, so they are
  sets; \<open>ipAllocations\<close> maps a cluster name to its allocation.\<close>

record MetalLBManager =
  minOctetRange :: int
  maxOctetRange :: int
  configManager :: ConfigManager
  ipAllocations :: "string \<rightharpoonup> MetalLBAllocation"
  usedRanges :: "string set"
  allNodeIPs :: "int set"

definition rangeKey :: "string \<Rightarrow> int \<Rightarrow> int \<Rightarrow> string" where
  "rangeKey ipPrefix startOctet endOctet =
     ipPrefix @ ''.'' @ fmt_d startOctet @ ''-'' @ fmt_d endOctet"

text \<open>The in-memory update made for one allocation; \<open>InitializeTracking\<close> runs it for
  every persisted entry, \<open>SaveAllocation\<close> for the entry just written.\<close>

definition track :: "MetalLBAllocation \<Rightarrow> MetalLBManager \<Rightarrow> MetalLBManager" where
  "track alloc mm =
     mm\<lparr>ipAllocations := (ipAllocations mm)(ClusterName alloc \<mapsto> alloc),
        usedRanges := insert (rangeKey (IPPrefix alloc) (StartOctet alloc) (EndOctet alloc))
                        (usedRanges mm),
        allNodeIPs := set (NodeIPs alloc) \<union> allNodeIPs mm\<rparr>"


text \<open>The upsert loop of \<open>SaveAllocation\<close>: the first entry with the same cluster name is
  replaced and the loop stops; \<open>None\<close> when no entry matched.\<close>

fun replaceFirst :: "MetalLBAllocation \<Rightarrow> MetalLBAllocation list \<Rightarrow> MetalLBAllocation list option" where
  "replaceFirst allocation [] = None"
| "replaceFirst allocation (existing # rest) =
     (if ClusterName existing = ClusterName allocation then Some (allocation # rest)
      else map_option ((#) existing) (replaceFirst allocation rest))"

definition upsert :: "MetalLBAllocation \<Rightarrow> MetalLBAllocation list \<Rightarrow> MetalLBAllocation list" where
  "upsert allocation allocs =
     (case replaceFirst allocation allocs of
        Some allocs' \<Rightarrow> allocs'
      | None \<Rightarrow> allocs @ [allocation])"

definition SaveAllocation :: "MetalLBManager \<Rightarrow> string \<Rightarrow> MetalLBAllocation \<Rightarrow> error + MetalLBManager" where
  "SaveAllocation mm project allocation =
     (case LoadConfig (configManager mm) project of
        Inl e \<Rightarrow> Inl e
      | Inr loaded \<Rightarrow>
          (let projectConfig =
                 (case loaded of
                    None \<Rightarrow> \<lparr>Project = project, MetalLBAllocations = []\<rparr>
                  | Some c \<Rightarrow> c);
               projectConfig' = projectConfig
                 \<lparr>MetalLBAllocations := upsert allocation (MetalLBAllocations projectConfig)\<rparr>
           in case SaveConfig (configManager mm) project projectConfig' of
                Inl e \<Rightarrow> Inl e
              | Inr cm' \<Rightarrow> Inr (track allocation (mm\<lparr>configManager := cm'\<rparr>))))"

section \<open>The load-balancer range partitioner (pkg/services/metallb.go)\<close>

text \<open>\<open>for octet := startOctet; octet <= endOctet; octet++ { if nodeIPs[octet] ... }\<close>\<close>

definition hasNodeIPIn :: "int set \<Rightarrow> int \<Rightarrow> int \<Rightarrow> bool" where
  "hasNodeIPIn nodeIPs startOctet endOctet =
     list_ex (\<lambda>octet. octet \<in> nodeIPs) [startOctet..endOctet]"

text \<open>The shift both searches make: one octet up, back to \<open>minOctetRange\<close> when the end
  would pass \<open>maxOctetRange\<close>.\<close>

definition shiftUp :: "MetalLBManager \<Rightarrow> int \<Rightarrow> int \<Rightarrow> int \<times> int" where
  "shiftUp mm startOctet rangeSize =
     (let startOctet' = startOctet + 1; endOctet' = startOctet' + rangeSize - 1
      in if endOctet' > maxOctetRange mm
         then (minOctetRange mm, minOctetRange mm + rangeSize - 1)
         else (startOctet', endOctet'))"

text \<open>A bounded search ends with a window it found, or with the window it stopped at
  when the attempts ran out (the branch that logs the warning).\<close>

datatype search = Found int int | Exhausted int int

fun window :: "search \<Rightarrow> int \<times> int" where
  "window (Found s e) = (s, e)"
| "window (Exhausted s e) = (s, e)"

text \<open>The loop of \<open>findNextAvailableRange\<close>; the first argument counts the attempts that
  are left of \<open>maxAttempts\<close>.\<close>

fun findNextLoop ::
  "nat \<Rightarrow> MetalLBManager \<Rightarrow> int \<Rightarrow> int \<Rightarrow> int \<Rightarrow> int set \<Rightarrow> string \<Rightarrow> search" where
  "findNextLoop 0 mm startOctet endOctet rangeSize nodeIPs ipPrefix =
     Exhausted startOctet endOctet"
| "findNextLoop (Suc left) mm startOctet endOctet rangeSize nodeIPs ipPrefix =
     (if rangeKey ipPrefix startOctet endOctet \<in> usedRanges mm then
        (case shiftUp mm startOctet rangeSize of
           (s, e) \<Rightarrow> findNextLoop left mm s e rangeSize nodeIPs ipPrefix)
      else if \<not> hasNodeIPIn nodeIPs startOctet endOctet then Found startOctet endOctet
      else
        (case shiftUp mm startOctet rangeSize of
           (s, e) \<Rightarrow> findNextLoop left mm s e rangeSize nodeIPs ipPrefix))"

definition findNextAvailableRange ::
  "MetalLBManager \<Rightarrow> int \<Rightarrow> int \<Rightarrow> int \<Rightarrow> int set \<Rightarrow> string \<Rightarrow> int \<times> int" where
  "findNextAvailableRange mm startOctet endOctet rangeSize nodeIPs ipPrefix =
     window (findNextLoop 100 mm startOctet endOctet rangeSize nodeIPs ipPrefix)"

text \<open>The inner test of \<open>adjustRangeForNodeIPs\<close>: no octet of the window is a node IP or
  lies above \<open>maxOctetRange\<close>.\<close>

definition windowFree :: "MetalLBManager \<Rightarrow> int set \<Rightarrow> int \<Rightarrow> int \<Rightarrow> bool" where
  "windowFree mm nodeIPs newStart newEnd =
     list_all (\<lambda>octet. \<not> (octet \<in> nodeIPs \<or> octet > maxOctetRange mm)) [newStart..newEnd]"

fun adjustLoop :: "nat \<Rightarrow> MetalLBManager \<Rightarrow> int set \<Rightarrow> int \<Rightarrow> int \<Rightarrow> int \<Rightarrow> search" where
  "adjustLoop 0 mm nodeIPs newStart newEnd rangeSize = Exhausted newStart newEnd"
| "adjustLoop (Suc left) mm nodeIPs newStart newEnd rangeSize =
     (if windowFree mm nodeIPs newStart newEnd then Found newStart newEnd
      else
        (case shiftUp mm newStart rangeSize of
           (s, e) \<Rightarrow> adjustLoop left mm nodeIPs s e rangeSize))"

text \<open>When the ten attempts run out the original window is returned, not the last one
  tried.\<close>

definition adjustRangeForNodeIPs ::
  "MetalLBManager \<Rightarrow> int \<Rightarrow> int \<Rightarrow> int set \<Rightarrow> string \<Rightarrow> int \<times> int" where
  "adjustRangeForNodeIPs mm startOctet endOctet nodeIPs ipPrefix =
     (if hasNodeIPIn nodeIPs startOctet endOctet then
        (case adjustLoop 10 mm nodeIPs startOctet endOctet (endOctet - startOctet + 1) of
           Found s e \<Rightarrow> (s, e)
         | Exhausted s e \<Rightarrow> (startOctet, endOctet))
      else (startOctet, endOctet))"

definition ipsPerCluster :: int where
  "ipsPerCluster = 20"

definition maxClusters :: "MetalLBManager \<Rightarrow> int" where
  "maxClusters mm = quo (maxOctetRange mm - minOctetRange mm + 1) ipsPerCluster"

text \<open>The candidate window of a cluster ordinal, before any conflict handling.\<close>

definition candidateWindow :: "MetalLBManager \<Rightarrow> int \<Rightarrow> int \<times> int" where
  "candidateWindow mm clusterNumber =
     (let startOctet = minOctetRange mm + (clusterNumber - 1) * ipsPerCluster;
          endOctet = startOctet + ipsPerCluster - 1
      in (startOctet, if endOctet > maxOctetRange mm then maxOctetRange mm else endOctet))"

text \<open>
  \<open>generateMetalLBIPRange\<close>. The argument \<open>nodeQuery\<close> is what \<open>getNodeIPs\<close> returned for the
  live cluster: \<open>None\<close> when listing the nodes failed, otherwise the last octets found, in
  the order in which the runtime iterates the map.
\<close>

definition generateMetalLBIPRange ::
  "MetalLBManager \<Rightarrow> string \<Rightarrow> string \<Rightarrow> int \<Rightarrow> int \<Rightarrow> int list option
     \<Rightarrow> error + string \<times> MetalLBAllocation" where
  "generateMetalLBIPRange mm clusterName minikubeIP clusterNumber totalClusters nodeQuery =
     (let ipParts = Split minikubeIP CHR ''.'' in
      if length ipParts < 3 then Inl InvalidAddress
      else
        let ipPrefix = ipParts ! 0 @ ''.'' @ ipParts ! 1 @ ''.'' @ ipParts ! 2;
            currentNodeIPs = (case nodeQuery of None \<Rightarrow> [] | Some octets \<Rightarrow> octets);
            combinedNodeIPs = allNodeIPs mm \<union> set currentNodeIPs
        in
        if totalClusters > maxClusters mm then Inl CapacityExceeded
        else
          let (startOctet, endOctet) = candidateWindow mm clusterNumber;
              (startOctet, endOctet) =
                (if rangeKey ipPrefix startOctet endOctet \<in> usedRanges mm
                 then findNextAvailableRange mm startOctet endOctet ipsPerCluster
                        combinedNodeIPs ipPrefix
                 else (startOctet, endOctet));
              (startOctet, endOctet) =
                adjustRangeForNodeIPs mm startOctet endOctet combinedNodeIPs ipPrefix;
              ipRange = ipPrefix @ ''.'' @ fmt_d startOctet @ ''-'' @ ipPrefix @ ''.''
                          @ fmt_d endOctet
          in Inr (ipRange,
                  \<lparr>ClusterName = clusterName, IPPrefix = ipPrefix, StartOctet = startOctet,
                   EndOctet = endOctet, NodeIPs = currentNodeIPs, IPRange = ipRange\<rparr>))"

text \<open>
  \<open>ConfigureMetalLB\<close> is the only caller, and the only place where an allocation reaches
  the ledger. The cluster is outside the model: \<open>clientOK\<close> and \<open>applyOK\<close> say whether
  creating the client manager and applying the manifest succeed. The result pairs the
  error, if any, with the manager after the call.
\<close>

definition ConfigureMetalLB ::
  "MetalLBManager \<Rightarrow> bool \<Rightarrow> int list option \<Rightarrow> bool \<Rightarrow> string \<Rightarrow> string \<Rightarrow> int \<Rightarrow> int
     \<Rightarrow> string \<Rightarrow> error option \<times> MetalLBManager" where
  "ConfigureMetalLB mm clientOK nodeQuery applyOK clusterName minikubeIp clusterNumber
       totalClusters project =
     (if \<not> clientOK then (Some ClientManagerFailed, mm)
      else
        case generateMetalLBIPRange mm clusterName minikubeIp clusterNumber totalClusters
               nodeQuery of
          Inl e \<Rightarrow> (Some e, mm)
        | Inr (ipRange, allocation) \<Rightarrow>
            if \<not> applyOK then (Some ApplyManifestFailed, mm)
            else if project \<noteq> [] then
              (case SaveAllocation mm project allocation of
                 Inl e \<Rightarrow> (None, mm)
               | Inr mm' \<Rightarrow> (None, mm'))
            else (None, mm))"

section \<open>Example states\<close>

text \<open>A manager as \<open>NewMetalLBManagerWithOptions\<close> builds it for the octet window
  \<open>[200, 254]\<close>, with an empty configuration directory.\<close>

definition exampleManager :: MetalLBManager where
  "exampleManager = \<lparr>minOctetRange = 200, maxOctetRange = 254,
     configManager = \<lparr>files = (\<lambda>_. Missing), writable = True\<rparr>,
     ipAllocations = Map.empty, usedRanges = {}, allNodeIPs = {}\<rparr>"

text \<open>The manager after the first cluster of project \<open>demo\<close>, with its node at
  \<open>192.168.102.50\<close>, has been configured and recorded.\<close>

definition afterFirstCluster :: MetalLBManager where
  "afterFirstCluster =
     snd (ConfigureMetalLB exampleManager True (Some [50]) True ''demo-1'' ''192.168.102.50'' 1 2
            ''demo'')"

text \<open>The same, for a first cluster whose node has the address \<open>192.168.102.200\<close>, the
  first octet of the window.\<close>

definition afterNodeAtWindowStart :: MetalLBManager where
  "afterNodeAtWindowStart =
     snd (ConfigureMetalLB exampleManager True (Some [200]) True ''demo-1'' ''192.168.102.200'' 1 2
            ''demo'')"

text \<open>The allocations persisted for a project, \<open>[]\<close> when there is no readable file.\<close>

definition persisted :: "MetalLBManager \<Rightarrow> string \<Rightarrow> MetalLBAllocation list" where
  "persisted mm project =
     (case files (configManager mm) project of
        Stored c \<Rightarrow> MetalLBAllocations c
      | _ \<Rightarrow> [])"

text \<open>Two ledger entries overlap when they share the prefix and their octet intervals
  have an octet in common.\<close>

definition overlapping :: "MetalLBAllocation \<Rightarrow> MetalLBAllocation \<Rightarrow> bool" where
  "overlapping a b \<longleftrightarrow>
     IPPrefix a = IPPrefix b \<and> StartOctet a \<le> EndOctet b \<and> StartOctet b \<le> EndOctet a"





section \<open>Control-plane port selection (getAvailablePortPrefix)\<close>

text \<open>
  \<open>isPortAvailable\<close> binds a local TCP port and closes it again; what it answers is a
  fact about the host, so it is an argument of the model. The host is taken not to change
  during one scan.
\<close>

datatype port_error = NoAvailablePorts

definition KindControlPlanePort :: int where
  "KindControlPlanePort = 7000"

text \<open>\<open>for port := 29000; port <= 30100; port++ { if isPortAvailable(port) { return ... } }\<close>\<close>

function scanPorts :: "(int \<Rightarrow> bool) \<Rightarrow> int \<Rightarrow> int \<Rightarrow> int option" where
  "scanPorts isPortAvailable port lastPort =
     (if port > lastPort then None
      else if isPortAvailable port then Some port
      else scanPorts isPortAvailable (port + 1) lastPort)"
  by pat_completeness auto
termination
  by (relation "measure (\<lambda>(isPortAvailable, port, lastPort). nat (lastPort + 1 - port))") auto

declare scanPorts.simps [simp del]

definition getAvailablePortPrefix :: "(int \<Rightarrow> bool) \<Rightarrow> int \<Rightarrow> port_error + string" where
  "getAvailablePortPrefix isPortAvailable clusterIndex =
     (let preferredPort = KindControlPlanePort + clusterIndex in
      if isPortAvailable preferredPort then Inr (fmt_d preferredPort)
      else
        (case scanPorts isPortAvailable 29000 30100 of
           Some port \<Rightarrow> Inr (fmt_d port)
         | None \<Rightarrow> Inl NoAvailablePorts))"

section \<open>Go's net package, as far as the allocator uses it\<close>

text \<open>
  An address (\<open>net.IP\<close>) and a mask (\<open>net.IPMask\<close>) are byte slices, of length 4 or 16
  when well formed; \<open>nil\<close> is the empty list. The functions of this section follow the
  package's documented behaviour; they are the library the repository calls, not code
  of the repository.
\<close>

type_synonym byte = "8 word"

record IPNet =
  IP :: "byte list"
  Mask :: "byte list"

text \<open>\<open>net.CIDRMask(ones, bits)\<close>.\<close>

fun maskBytes :: "nat \<Rightarrow> nat \<Rightarrow> byte list" where
  "maskBytes n 0 = []"
| "maskBytes n (Suc l) =
     (if n \<ge> 8 then 255 # maskBytes (n - 8) l
      else NOT (drop_bit n (255 :: byte)) # maskBytes 0 l)"

definition CIDRMask :: "int \<Rightarrow> int \<Rightarrow> byte list" where
  "CIDRMask ones bits =
     (if bits \<noteq> 32 \<and> bits \<noteq> 128 then []
      else if ones < 0 \<or> ones > bits then []
      else maskBytes (nat ones) (nat (bits div 8)))"

text \<open>The twelve bytes in front of an IPv4 address in its 16-byte form.\<close>

definition v4InV6Prefix :: "byte list" where
  "v4InV6Prefix = [0, 0, 0, 0, 0, 0, 0, 0, 0, 0, 255, 255]"

text \<open>\<open>IP.To4\<close>: a 4-byte address as it is, an IPv4-mapped 16-byte address as its last
  four bytes, \<open>nil\<close> (here \<open>None\<close>) otherwise.\<close>

definition To4 :: "byte list \<Rightarrow> byte list option" where
  "To4 ip =
     (if length ip = 4 then Some ip
      else if length ip = 16 \<and> list_all (\<lambda>b. b = 0) (take 10 ip) \<and> ip ! 10 = 255 \<and> ip ! 11 = 255
      then Some (drop 12 ip)
      else None)"

text \<open>\<open>net.IPv4(a, b, c, d)\<close>: the 16-byte IPv4-mapped form.\<close>

definition IPv4 :: "byte \<Rightarrow> byte \<Rightarrow> byte \<Rightarrow> byte \<Rightarrow> byte list" where
  "IPv4 a b c d = v4InV6Prefix @ [a, b, c, d]"

text \<open>\<open>IP.Mask(mask)\<close>.\<close>

definition IP_Mask :: "byte list \<Rightarrow> byte list \<Rightarrow> byte list" where
  "IP_Mask ip0 m0 =
     (let m = (if length m0 = 16 \<and> length ip0 = 4 \<and> list_all (\<lambda>b. b = 255) (take 12 m0)
               then drop 12 m0 else m0);
          ip = (if length m = 4 \<and> length ip0 = 16 \<and> take 12 ip0 = v4InV6Prefix
                then drop 12 ip0 else ip0)
      in if length ip \<noteq> length m then [] else map2 (AND) ip m)"

text \<open>\<open>simpleMaskLength\<close> and \<open>IPMask.Size\<close>: the number of leading ones of a mask made of
  ones followed by zeros, \<open>-1\<close> for any other mask. A byte has eight bits, so the inner
  loop, which shifts while the top bit is set, makes at most eight steps.\<close>

fun leadingOnes :: "nat \<Rightarrow> byte \<Rightarrow> nat \<times> byte" where
  "leadingOnes 0 v = (0, v)"
| "leadingOnes (Suc k) v =
     (if v AND 128 \<noteq> 0 then (case leadingOnes k (push_bit 1 v) of (n, v') \<Rightarrow> (Suc n, v'))
      else (0, v))"

fun simpleMaskLength :: "byte list \<Rightarrow> int" where
  "simpleMaskLength [] = 0"
| "simpleMaskLength (v # rest) =
     (if v = 255 then
        (let n = simpleMaskLength rest in if n = - 1 then - 1 else 8 + n)
      else
        (case leadingOnes 8 v of
           (n, v') \<Rightarrow> if v' \<noteq> 0 \<or> \<not> list_all (\<lambda>b. b = 0) rest then - 1 else int n))"

definition Size :: "byte list \<Rightarrow> int \<times> int" where
  "Size m = (if simpleMaskLength m = - 1 then (0, 0) else (simpleMaskLength m, int (length m) * 8))"

text \<open>\<open>networkNumberAndMask\<close> and \<open>IPNet.Contains\<close>.\<close>

definition networkNumberAndMask :: "IPNet \<Rightarrow> byte list \<times> byte list" where
  "networkNumberAndMask n =
     (case To4 (IP n) of
        Some ip4 \<Rightarrow>
          (if length (Mask n) = 4 then (ip4, Mask n)
           else if length (Mask n) = 16 then (ip4, drop 12 (Mask n))
           else ([], []))
      | None \<Rightarrow>
          (if length (IP n) \<noteq> 16 then ([], [])
           else if length (Mask n) = 16 then (IP n, Mask n)
           else ([], [])))"

definition Contains :: "IPNet \<Rightarrow> byte list \<Rightarrow> bool" where
  "Contains n ip0 =
     (case networkNumberAndMask n of
        (nn, m) \<Rightarrow>
          (let ip = (case To4 ip0 of Some x \<Rightarrow> x | None \<Rightarrow> ip0)
           in length ip = length nn
              \<and> list_all (\<lambda>i. nn ! i AND m ! i = ip ! i AND m ! i) [0..<length ip]))"

subsection \<open>Addresses as text\<close>

definition isDigit :: "char \<Rightarrow> bool" where
  "isDigit c \<longleftrightarrow> c \<in> set ''0123456789''"

definition digitVal :: "char \<Rightarrow> nat" where
  "digitVal c = of_char c - 48"

text \<open>\<open>strings.Join\<close> and \<open>strings.Cut\<close> for a one-character separator.\<close>

fun Join :: "string list \<Rightarrow> string \<Rightarrow> string" where
  "Join [] sep = []"
| "Join [f] sep = f"
| "Join (f # g # fs) sep = f @ sep @ Join (g # fs) sep"

fun Cut :: "string \<Rightarrow> char \<Rightarrow> (string \<times> string) option" where
  "Cut [] sep = None"
| "Cut (c # cs) sep =
     (if c = sep then Some ([], cs)
      else map_option (\<lambda>(before, after). (c # before, after)) (Cut cs sep))"

text \<open>\<open>dtoi\<close>: the decimal number at the start of a text, the count of its digits, and
  whether there was one below the bound \<open>0xFFFFFF\<close>.\<close>

fun dtoiFrom :: "int \<Rightarrow> nat \<Rightarrow> string \<Rightarrow> int \<times> nat \<times> bool" where
  "dtoiFrom n i [] = (if i = 0 then (0, 0, False) else (n, i, True))"
| "dtoiFrom n i (c # cs) =
     (if isDigit c then
        (let n' = n * 10 + int (digitVal c)
         in if n' \<ge> 16777215 then (16777215, i, False) else dtoiFrom n' (Suc i) cs)
      else if i = 0 then (0, 0, False) else (n, i, True))"

definition dtoi :: "string \<Rightarrow> int \<times> nat \<times> bool" where
  "dtoi s = dtoiFrom 0 0 s"

text \<open>One field of a dotted quad, as \<open>netip.ParseAddr\<close> reads it: decimal digits only, at
  least one, no leading zero in front of further digits, value at most 255.\<close>

fun octetFrom :: "nat \<Rightarrow> nat \<Rightarrow> string \<Rightarrow> nat option" where
  "octetFrom val digLen [] = (if digLen = 0 then None else Some val)"
| "octetFrom val digLen (c # cs) =
     (if \<not> isDigit c then None
      else if digLen = 1 \<and> val = 0 then None
      else (let val' = val * 10 + digitVal c
            in if val' > 255 then None else octetFrom val' (Suc digLen) cs))"

definition parseIPv4 :: "string \<Rightarrow> byte list option" where
  "parseIPv4 s =
     (let fields = Split s CHR ''.''
      in if length fields \<noteq> 4 then None
         else map_option (map of_nat) (those (map (octetFrom 0 0) fields)))"

text \<open>One group of an IPv6 address: one to four hexadecimal digits.\<close>

definition hexVal :: "char \<Rightarrow> nat option" where
  "hexVal c =
     (if isDigit c then Some (digitVal c)
      else if c \<in> set ''abcdef'' then Some (of_char c - 87)
      else if c \<in> set ''ABCDEF'' then Some (of_char c - 55)
      else None)"

fun groupFrom :: "nat \<Rightarrow> nat \<Rightarrow> string \<Rightarrow> nat option" where
  "groupFrom acc off [] = (if off = 0 then None else Some acc)"
| "groupFrom acc off (c # cs) =
     (case hexVal c of
        None \<Rightarrow> None
      | Some v \<Rightarrow> if off > 3 then None else groupFrom (acc * 16 + v) (Suc off) cs)"

text \<open>The groups of a colon-separated text. Where \<open>allowV4\<close> holds, the last field may be a
  dotted quad, which stands for two groups.\<close>

fun groups6 :: "string list \<Rightarrow> bool \<Rightarrow> nat list option" where
  "groups6 [] allowV4 = Some []"
| "groups6 [f] allowV4 =
     (if allowV4 \<and> CHR ''.'' \<in> set f then
        (case parseIPv4 f of
           Some [a, b, c, d] \<Rightarrow> Some [unat a * 256 + unat b, unat c * 256 + unat d]
         | _ \<Rightarrow> None)
      else map_option (\<lambda>g. [g]) (groupFrom 0 0 f))"
| "groups6 (f # fs) allowV4 =
     (case groupFrom 0 0 f of
        None \<Rightarrow> None
      | Some g \<Rightarrow> map_option ((#) g) (groups6 fs allowV4))"

text \<open>The text before and after the first \<open>::\<close>.\<close>

fun cutEllipsis :: "string \<Rightarrow> (string \<times> string) option" where
  "cutEllipsis (c # d # cs) =
     (if c = CHR '':'' \<and> d = CHR '':'' then Some ([], cs)
      else map_option (\<lambda>(before, after). (c # before, after)) (cutEllipsis (d # cs)))"
| "cutEllipsis cs = None"

definition groupBytes :: "nat list \<Rightarrow> byte list" where
  "groupBytes gs = concat (map (\<lambda>g. [of_nat (g div 256), of_nat (g mod 256)]) gs)"

definition fields6 :: "string \<Rightarrow> bool \<Rightarrow> nat list option" where
  "fields6 t allowV4 = (if t = [] then Some [] else groups6 (Split t CHR '':'') allowV4)"

text \<open>An IPv6 address without a zone; \<open>net.ParseIP\<close> and \<open>net.ParseCIDR\<close> reject a text
  with a zone, so a \<open>%\<close> makes the text unparsable here.\<close>

definition parseIPv6 :: "string \<Rightarrow> byte list option" where
  "parseIPv6 s =
     (if CHR ''%'' \<in> set s then None
      else
        case cutEllipsis s of
          None \<Rightarrow>
            (case fields6 s True of
               Some gs \<Rightarrow> if s \<noteq> [] \<and> length gs = 8 then Some (groupBytes gs) else None
             | None \<Rightarrow> None)
        | Some (l, r) \<Rightarrow>
            (case (fields6 l False, fields6 r True) of
               (Some a, Some b) \<Rightarrow>
                 if length a + length b \<le> 7
                 then Some (groupBytes (a @ replicate (8 - length a - length b) 0 @ b))
                 else None
             | _ \<Rightarrow> None))"

datatype addr = Addr4 "byte list" | Addr6 "byte list"

text \<open>\<open>netip.ParseAddr\<close>: the first of \<open>.\<close>, \<open>:\<close> and \<open>%\<close> in the text selects the
  parser.\<close>

definition parseAddr :: "string \<Rightarrow> addr option" where
  "parseAddr s =
     (case find (\<lambda>c. c \<in> set ''.:%'') s of
        None \<Rightarrow> None
      | Some c \<Rightarrow>
          if c = CHR ''.'' then map_option Addr4 (parseIPv4 s)
          else if c = CHR '':'' then map_option Addr6 (parseIPv6 s)
          else None)"

fun As16 :: "addr \<Rightarrow> byte list" where
  "As16 (Addr4 b) = v4InV6Prefix @ b"
| "As16 (Addr6 b) = b"

fun BitLen :: "addr \<Rightarrow> int" where
  "BitLen (Addr4 b) = 32"
| "BitLen (Addr6 b) = 128"

definition ParseIP :: "string \<Rightarrow> byte list option" where
  "ParseIP s = map_option As16 (parseAddr s)"

text \<open>\<open>net.ParseCIDR\<close>: the address and the network, whose \<open>IP\<close> is the address masked and
  has four bytes for IPv4 text.\<close>

definition ParseCIDR :: "string \<Rightarrow> (byte list \<times> IPNet) option" where
  "ParseCIDR s =
     (case Cut s CHR ''/'' of
        None \<Rightarrow> None
      | Some (addrText, maskText) \<Rightarrow>
          (case parseAddr addrText of
             None \<Rightarrow> None
           | Some a \<Rightarrow>
               (case dtoi maskText of
                  (n, i, ok) \<Rightarrow>
                    if \<not> ok \<or> i \<noteq> length maskText \<or> n < 0 \<or> n > BitLen a then None
                    else (let m = CIDRMask n (BitLen a)
                          in Some (As16 a, \<lparr>IP = IP_Mask (As16 a) m, Mask = m\<rparr>)))))"

text \<open>\<open>IP.String\<close>: dotted decimal for an address with a 4-byte form, otherwise the
  hexadecimal groups with the longest run of at least two zero groups written \<open>::\<close>.\<close>

fun hexDigits :: "nat \<Rightarrow> nat list" where
  "hexDigits n = (if n < 16 then [n] else hexDigits (n div 16) @ [n mod 16])"

declare hexDigits.simps [simp del]

definition fmt_x :: "nat \<Rightarrow> string" where
  "fmt_x n = map (\<lambda>k. ''0123456789abcdef'' ! k) (hexDigits n)"

definition hexString :: "byte list \<Rightarrow> string" where
  "hexString bs =
     concat (map (\<lambda>b. [''0123456789abcdef'' ! (unat b div 16), ''0123456789abcdef'' ! (unat b mod 16)]) bs)"

definition dotted :: "byte list \<Rightarrow> string" where
  "dotted p4 = Join (map (\<lambda>b. fmt_nat (unat b)) p4) ''.''"

fun groupsOf :: "byte list \<Rightarrow> nat list" where
  "groupsOf (hi # lo # rest) = (unat hi * 256 + unat lo) # groupsOf rest"
| "groupsOf rest = []"

text \<open>The zero run that \<open>::\<close> replaces, as start and end index; both 255 when there is
  none. A later run wins only when it is longer.\<close>

definition zeroRun :: "nat list \<Rightarrow> nat \<times> nat" where
  "zeroRun gs =
     foldl (\<lambda>(zeroStart, zeroEnd) i.
              let j = i + length (takeWhile (\<lambda>g. g = 0) (drop i gs))
              in if j - i \<ge> 2 \<and> j - i > zeroEnd - zeroStart then (i, j) else (zeroStart, zeroEnd))
       (255, 255) [0..<8]"

definition string6 :: "byte list \<Rightarrow> string" where
  "string6 ip =
     (let gs = groupsOf ip in
      case zeroRun gs of
        (zeroStart, zeroEnd) \<Rightarrow>
          if zeroStart = 255 then Join (map fmt_x gs) '':''
          else Join (map fmt_x (take zeroStart gs)) '':'' @ ''::''
                 @ Join (map fmt_x (drop zeroEnd gs)) '':'')"

definition IP_String :: "byte list \<Rightarrow> string" where
  "IP_String ip =
     (if ip = [] then ''<nil>''
      else if length ip \<noteq> 4 \<and> length ip \<noteq> 16 then ''?'' @ hexString ip
      else case To4 ip of Some p4 \<Rightarrow> dotted p4 | None \<Rightarrow> string6 ip)"

text \<open>\<open>IPNet.String\<close>.\<close>

definition IPNet_String :: "IPNet \<Rightarrow> string" where
  "IPNet_String n =
     (case networkNumberAndMask n of
        (nn, m) \<Rightarrow>
          if nn = [] \<or> m = [] then ''<nil>''
          else if simpleMaskLength m = - 1 then IP_String nn @ ''/'' @ hexString m
          else IP_String nn @ ''/'' @ fmt_d (simpleMaskLength m))"

section \<open>The CIDR parameter calculator (pkg/network/network_linux.go)\<close>

text \<open>The fields of \<open>Parameters\<close> that \<open>calculateSubnetParameters\<close> fills; the embedded
  \<open>Interface\<close> is left at its zero value. The field \<open>IP\<close> is called \<open>NetworkIP\<close> here, since
  \<open>IPNet\<close> has a field of that name.\<close>

record Parameters =
  NetworkIP :: string
  Netmask :: string
  Prefix :: int
  CIDR :: string
  Gateway :: string
  ClientMin :: string
  ClientMax :: string
  Broadcast :: string
  IsPrivate :: bool

definition isPrivateIP :: "byte list \<Rightarrow> bool" where
  "isPrivateIP ip =
     list_ex (\<lambda>r. Contains r ip)
       [\<lparr>IP = IPv4 10 0 0 0, Mask = CIDRMask 8 32\<rparr>,
        \<lparr>IP = IPv4 172 16 0 0, Mask = CIDRMask 12 32\<rparr>,
        \<lparr>IP = IPv4 192 168 0 0, Mask = CIDRMask 16 32\<rparr>]"

text \<open>The address computed first in \<open>calculateSubnetParameters\<close>: the 4-byte form of the
  network address, or the address itself when it has none.\<close>

definition subnetIP :: "IPNet \<Rightarrow> byte list" where
  "subnetIP ipNet = (case To4 (IP ipNet) of Some ip \<Rightarrow> ip | None \<Rightarrow> IP ipNet)"

text \<open>\<open>x[len(x)-1]++\<close> and \<open>x[len(x)-1]--\<close> on a non-empty byte slice: the last byte alone
  changes, modulo 256.\<close>

definition incLast :: "byte list \<Rightarrow> byte list" where
  "incLast x = x[length x - 1 := x ! (length x - 1) + 1]"

definition decLast :: "byte list \<Rightarrow> byte list" where
  "decLast x = x[length x - 1 := x ! (length x - 1) - 1]"

definition gatewayIP :: "IPNet \<Rightarrow> byte list" where
  "gatewayIP ipNet = incLast (subnetIP ipNet)"

text \<open>\<open>for i := range broadcast { broadcast[i] |= ^ipNet.Mask[i] }\<close>\<close>

definition broadcastIP :: "IPNet \<Rightarrow> byte list" where
  "broadcastIP ipNet =
     map (\<lambda>i. subnetIP ipNet ! i OR NOT (Mask ipNet ! i)) [0..<length (subnetIP ipNet)]"

definition clientMinIP :: "IPNet \<Rightarrow> byte list" where
  "clientMinIP ipNet = incLast (gatewayIP ipNet)"

definition clientMaxIP :: "IPNet \<Rightarrow> byte list" where
  "clientMaxIP ipNet = decLast (decLast (broadcastIP ipNet))"

datatype panic = IndexOutOfRange

text \<open>Indexing past the end of a slice panics: the address must not be empty, and the
  mask must cover the address and have the four bytes that are printed.\<close>

definition calculateSubnetParameters :: "IPNet \<Rightarrow> panic + Parameters" where
  "calculateSubnetParameters ipNet =
     (if subnetIP ipNet = [] \<or> length (Mask ipNet) < length (subnetIP ipNet)
         \<or> length (Mask ipNet) < 4
      then Inl IndexOutOfRange
      else Inr
        \<lparr>NetworkIP = IP_String (subnetIP ipNet),
         Netmask = Join (map (\<lambda>b. fmt_nat (unat b)) (take 4 (Mask ipNet))) ''.'',
         Prefix = fst (Size (Mask ipNet)),
         CIDR = IPNet_String ipNet,
         Gateway = IP_String (gatewayIP ipNet),
         ClientMin = IP_String (clientMinIP ipNet),
         ClientMax = IP_String (clientMaxIP ipNet),
         Broadcast = IP_String (broadcastIP ipNet),
         IsPrivate = isPrivateIP (subnetIP ipNet)\<rparr>)"

text \<open>An address of four bytes read as one 32-bit number, most significant byte first.\<close>

definition addrValue :: "byte list \<Rightarrow> nat" where
  "addrValue ip = foldl (\<lambda>acc b. acc * 256 + unat b) 0 ip"

section \<open>The subnet prober and the free-subnet search (libvirt)\<close>

text \<open>An \<open>ip\<close> element of a libvirt network definition. The attributes \<open>prefix\<close> and
  \<open>netmask\<close> are the fields \<open>Prefix\<close> and \<open>Netmask\<close> of \<open>libvirtIPElement\<close>; they carry the
  suffix \<open>Attr\<close> here because \<open>Parameters\<close> has fields of these names.\<close>

record libvirtIPElement =
  Address :: string
  PrefixAttr :: string
  NetmaskAttr :: string

text \<open>
  What libvirt answers is outside the program: connecting may fail, listing the networks
  may fail, and for each listed network the XML description may be unavailable or
  unparsable, or it yields the \<open>ip\<close> elements. The texts are the messages of libvirt's
  errors.
\<close>

datatype network = XMLDescFailed | XMLUnparsable | NetworkXML "libvirtIPElement list"

datatype libvirt = ConnectFails string | ListFails string | Networks "network list"

datatype check_error = ConnectError string | ListError string | OverlapError IPNet IPNet

text \<open>The message of an error of the prober, as \<open>fmt.Errorf\<close> builds it.\<close>

fun Error :: "check_error \<Rightarrow> string" where
  "Error (ConnectError msg) =
     ''failed to connect to libvirt: failed connecting to libvirt socket: '' @ msg"
| "Error (ListError msg) = ''failed to list libvirt networks: '' @ msg"
| "Error (OverlapError ipNet existingNet) =
     ''subnet '' @ IPNet_String ipNet @ '' overlaps with existing libvirt network ''
       @ IPNet_String existingNet"

text \<open>\<open>fmt.Sscanf(s, "%d", &n)\<close>: blanks are skipped (a newline is an error), a sign is
  accepted, at least one decimal digit must follow, the number must fit 64 bits, and the
  rest of the text is not looked at.\<close>

definition Sscanf_d :: "string \<Rightarrow> int option" where
  "Sscanf_d s =
     (let t = dropWhile (\<lambda>c. c \<in> {CHR '' '', CHR 0x09, CHR 0x0B, CHR 0x0C, CHR 0x0D}) s;
          (neg, u) = (case t of
                        c # cs \<Rightarrow> if c = CHR ''-'' then (True, cs)
                                  else if c = CHR ''+'' then (False, cs) else (False, t)
                      | [] \<Rightarrow> (False, t));
          ds = takeWhile isDigit u;
          v = foldl (\<lambda>acc c. acc * 10 + int (digitVal c)) 0 ds
      in if ds = [] then None
         else if neg then (if v \<le> 9223372036854775808 then Some (- v) else None)
         else (if v \<le> 9223372036854775807 then Some v else None))"

text \<open>The network of one \<open>ip\<close> element, as the body of the inner loop of
  \<open>checkLibvirtSubnetOverlap\<close> computes it; \<open>None\<close> where the loop continues with the next
  element.\<close>

definition existingNetOf :: "libvirtIPElement \<Rightarrow> IPNet option" where
  "existingNetOf ipElem =
     (if Address ipElem = [] then None
      else if ParseIP (Address ipElem) = None then None
      else
        case (if PrefixAttr ipElem \<noteq> [] then Sscanf_d (PrefixAttr ipElem)
              else if NetmaskAttr ipElem \<noteq> [] then
                (case ParseIP (NetmaskAttr ipElem) of
                   Some netmaskIP \<Rightarrow>
                     Some (fst (Size (case To4 netmaskIP of Some m \<Rightarrow> m | None \<Rightarrow> [])))
                 | None \<Rightarrow> None)
              else Some 24) of
          None \<Rightarrow> None
        | Some prefixLen \<Rightarrow>
            map_option snd
              (ParseCIDR (Address ipElem @ ''/''
                 @ fmt_d (if prefixLen = 0 then 24 else prefixLen))))"

fun checkElements :: "IPNet \<Rightarrow> libvirtIPElement list \<Rightarrow> check_error option" where
  "checkElements ipNet [] = None"
| "checkElements ipNet (ipElem # rest) =
     (case existingNetOf ipElem of
        None \<Rightarrow> checkElements ipNet rest
      | Some existingNet \<Rightarrow>
          if Contains existingNet (IP ipNet) \<or> Contains ipNet (IP existingNet)
          then Some (OverlapError ipNet existingNet)
          else checkElements ipNet rest)"

fun checkNetworks :: "IPNet \<Rightarrow> network list \<Rightarrow> check_error option" where
  "checkNetworks ipNet [] = None"
| "checkNetworks ipNet (libvirtNet # rest) =
     (case libvirtNet of
        NetworkXML elems \<Rightarrow>
          (case checkElements ipNet elems of
             Some err \<Rightarrow> Some err
           | None \<Rightarrow> checkNetworks ipNet rest)
      | _ \<Rightarrow> checkNetworks ipNet rest)"

text \<open>\<open>checkLibvirtSubnetOverlap\<close>: \<open>None\<close> is the \<open>nil\<close> error, the subnet is free.\<close>

definition checkLibvirtSubnetOverlap :: "libvirt \<Rightarrow> IPNet \<Rightarrow> check_error option" where
  "checkLibvirtSubnetOverlap lv ipNet =
     (case lv of
        ConnectFails msg \<Rightarrow> Some (ConnectError msg)
      | ListFails msg \<Rightarrow> Some (ListError msg)
      | Networks nets \<Rightarrow> checkNetworks ipNet nets)"

datatype find_error = ParseFailed string | InvalidIPv4Subnet string | NoFreeSubnet

text \<open>The next candidate after an overlap: the network address, read back from its text
  and taken in its 4-byte form, with \<open>byte(step)\<close> added to the second octet for a prefix
  of at most 16 bits and to the third otherwise; \<open>None\<close> when there is no 4-byte form.\<close>

definition nextSubnet :: "IPNet \<Rightarrow> int \<Rightarrow> string option" where
  "nextSubnet ipNet step =
     (let prefix = fst (Size (Mask ipNet)) in
      case (case ParseIP (IP_String (IP ipNet)) of None \<Rightarrow> None | Some x \<Rightarrow> To4 x) of
        None \<Rightarrow> None
      | Some nextIP \<Rightarrow>
          Some (IP_String (if prefix \<le> 16 then nextIP[1 := nextIP ! 1 + of_int step]
                           else nextIP[2 := nextIP ! 2 + of_int step])
                @ ''/'' @ fmt_d prefix))"

text \<open>The loop of \<open>FindFreeLibvirtSubnet\<close>; the first argument counts the tries that are
  left. libvirt is taken not to change during the search.\<close>

fun findLoop :: "nat \<Rightarrow> libvirt \<Rightarrow> string \<Rightarrow> int \<Rightarrow> find_error + string" where
  "findLoop 0 lv currSubnet step = Inl NoFreeSubnet"
| "findLoop (Suc left) lv currSubnet step =
     (case ParseCIDR currSubnet of
        None \<Rightarrow> Inl (ParseFailed currSubnet)
      | Some (ip, ipNet) \<Rightarrow>
          (case checkLibvirtSubnetOverlap lv ipNet of
             None \<Rightarrow> Inr currSubnet
           | Some err \<Rightarrow>
               if Contains_str (Error err) ''overlaps'' then
                 (case nextSubnet ipNet step of
                    None \<Rightarrow> Inl (InvalidIPv4Subnet currSubnet)
                  | Some next \<Rightarrow> findLoop left lv next step)
               else Inr currSubnet))"

definition FindFreeLibvirtSubnet :: "libvirt \<Rightarrow> string \<Rightarrow> int \<Rightarrow> int \<Rightarrow> find_error + string" where
  "FindFreeLibvirtSubnet lv startSubnet step tries = findLoop (nat tries) lv startSubnet step"

text \<open>The candidates of a search in the order in which they are tried, and whether the
  prober reports an overlap for a candidate (its error text contains \<open>overlaps\<close>).\<close>

fun candidate :: "string \<Rightarrow> int \<Rightarrow> nat \<Rightarrow> string" where
  "candidate startSubnet step 0 = startSubnet"
| "candidate startSubnet step (Suc i) =
     (case ParseCIDR (candidate startSubnet step i) of
        None \<Rightarrow> candidate startSubnet step i
      | Some (ip, ipNet) \<Rightarrow>
          (case nextSubnet ipNet step of
             None \<Rightarrow> candidate startSubnet step i
           | Some next \<Rightarrow> next))"

definition reportsOverlap :: "libvirt \<Rightarrow> string \<Rightarrow> bool" where
  "reportsOverlap lv subnet =
     (case ParseCIDR subnet of
        None \<Rightarrow> False
      | Some (ip, ipNet) \<Rightarrow>
          (case checkLibvirtSubnetOverlap lv ipNet of
             None \<Rightarrow> False
           | Some err \<Rightarrow> Contains_str (Error err) ''overlaps''))"

text \<open>Example answers of libvirt: the default network \<open>192.168.122.1/24\<close> given by a
  netmask, a network without prefix and netmask, and an IPv6 network.\<close>

definition exampleLibvirt :: libvirt where
  "exampleLibvirt = Networks
     [NetworkXML [\<lparr>Address = ''192.168.122.1'', PrefixAttr = '''', NetmaskAttr = ''255.255.255.0''\<rparr>],
      XMLDescFailed,
      NetworkXML [\<lparr>Address = ''10.250.0.1'', PrefixAttr = ''16'', NetmaskAttr = ''''\<rparr>,
                  \<lparr>Address = ''192.168.39.1'', PrefixAttr = '''', NetmaskAttr = ''''\<rparr>],
      NetworkXML [\<lparr>Address = ''fd00::1'', PrefixAttr = ''64'', NetmaskAttr = ''''\<rparr>]]"




section \<open>Verified properties\<close>

subsection \<open>Evaluating the decimal rendering\<close>

lemma decimal_numeral:
  "decimal (numeral k) =
     (if (numeral k :: nat) < 10 then [numeral k]
      else decimal (numeral k div 10) @ [numeral k mod 10])"
  by (rule decimal.simps)

lemma decimal_small: "decimal 0 = [0]" "decimal 1 = [1]" "decimal (Suc 0) = [1]"
  by (simp_all add: decimal.simps)

lemmas fmt_eval = fmt_d_def fmt_nat_def decimal_numeral decimal_small digit_def

subsection \<open>Capacity check of the partitioner\<close>

lemma Configure_error_keeps_manager:
  "generateMetalLBIPRange mm cn ip k n nq = Inl e \<Longrightarrow>
   ConfigureMetalLB mm clientOK nq applyOK cn ip k n project =
     (Some (if clientOK then e else ClientManagerFailed), mm)"
  by (simp add: ConfigureMetalLB_def)

lemma maxClusters_example: "maxClusters exampleManager = 2"
  by (simp add: maxClusters_def exampleManager_def quo_def ipsPerCluster_def)

text \<open>
  C2, as the code has it. The address check comes first in \<open>generateMetalLBIPRange\<close>, so
  a request for more clusters than fit fails with \<open>CapacityExceeded\<close> when the node
  address has at least three dot-separated components, and with \<open>InvalidAddress\<close> when it
  has fewer. In both cases \<open>ConfigureMetalLB\<close> returns that error (or the error of the
  client manager, when that could not be created) and the manager, with its ledger, is
  the one it was given: \<open>SaveAllocation\<close> is not reached.
\<close>

theorem capacity_exceeded:
  assumes "totalClusters > maxClusters mm"
  shows "generateMetalLBIPRange mm clusterName minikubeIP clusterNumber totalClusters nodeQuery
           = Inl (if length (Split minikubeIP CHR ''.'') < 3 then InvalidAddress
                  else CapacityExceeded)
       \<and> ConfigureMetalLB mm clientOK nodeQuery applyOK clusterName minikubeIP clusterNumber
            totalClusters project
           = (Some (if \<not> clientOK then ClientManagerFailed
                    else if length (Split minikubeIP CHR ''.'') < 3 then InvalidAddress
                    else CapacityExceeded),
              mm)"
proof -
  have fails: "generateMetalLBIPRange mm clusterName minikubeIP clusterNumber totalClusters nodeQuery
      = Inl (if length (Split minikubeIP CHR ''.'') < 3 then InvalidAddress else CapacityExceeded)"
    using assms by (simp add: generateMetalLBIPRange_def Let_def)
  show ?thesis
    using Configure_error_keeps_manager [OF fails, of clientOK applyOK project] fails by simp
qed

text \<open>The scenario of the specification: the window \<open>[200, 254]\<close> holds two clusters, and a
  request for three fails with \<open>CapacityExceeded\<close>; with the node address \<open>192.168\<close> the
  same request fails with \<open>InvalidAddress\<close>. The manager is unchanged in both.\<close>

theorem capacity_exceeded_witness:
  "maxClusters exampleManager = 2 \<and> 3 > maxClusters exampleManager
   \<and> length (Split ''192.168.102.50'' CHR ''.'') = 4
   \<and> generateMetalLBIPRange exampleManager ''demo-3'' ''192.168.102.50'' 3 3 (Some [50])
        = Inl CapacityExceeded
   \<and> ConfigureMetalLB exampleManager True (Some [50]) True ''demo-3'' ''192.168.102.50'' 3 3 ''demo''
        = (Some CapacityExceeded, exampleManager)
   \<and> length (Split ''192.168'' CHR ''.'') = 2
   \<and> generateMetalLBIPRange exampleManager ''demo-3'' ''192.168'' 3 3 (Some [50])
        = Inl InvalidAddress
   \<and> ConfigureMetalLB exampleManager True (Some [50]) True ''demo-3'' ''192.168'' 3 3 ''demo''
        = (Some InvalidAddress, exampleManager)"
proof -
  have m: "3 > maxClusters exampleManager" by (simp add: maxClusters_example)
  have l: "length (Split ''192.168.102.50'' CHR ''.'') = 4" by simp
  have k: "length (Split ''192.168'' CHR ''.'') = 2" by simp
  show ?thesis
    using capacity_exceeded [OF m, of "''demo-3''" "''192.168.102.50''" 3 "Some [50]" True True "''demo''"]
      capacity_exceeded [OF m, of "''demo-3''" "''192.168''" 3 "Some [50]" True True "''demo''"]
      maxClusters_example
    unfolding l k by simp
qed

text \<open>The claim as written fails for a node address with fewer than three components: the
  call is over capacity, and the error is \<open>InvalidAddress\<close>.\<close>

theorem capacity_exceeded_counterexample:
  "3 > maxClusters exampleManager
   \<and> generateMetalLBIPRange exampleManager ''demo-3'' ''192.168'' 3 3 (Some [50])
        = Inl InvalidAddress
   \<and> generateMetalLBIPRange exampleManager ''demo-3'' ''192.168'' 3 3 (Some [50])
        \<noteq> Inl CapacityExceeded"
  by (simp add: maxClusters_example generateMetalLBIPRange_def)

subsection \<open>Candidate window and rendered range\<close>

lemma candidateWindow_eq:
  "candidateWindow mm k =
     (minOctetRange mm + (k - 1) * 20,
      min (minOctetRange mm + (k - 1) * 20 + 19) (maxOctetRange mm))"
  by (simp add: candidateWindow_def Let_def ipsPerCluster_def min_def)

lemma adjust_no_overlap:
  "\<not> hasNodeIPIn nodeIPs s e \<Longrightarrow> adjustRangeForNodeIPs mm s e nodeIPs pfx = (s, e)"
  by (simp add: adjustRangeForNodeIPs_def)

lemma first_cluster_range:
  "generateMetalLBIPRange exampleManager ''demo-1'' ''192.168.102.50'' 1 2 (Some [50]) =
     Inr (''192.168.102.200-192.168.102.219'',
          \<lparr>ClusterName = ''demo-1'', IPPrefix = ''192.168.102'', StartOctet = 200,
           EndOctet = 219, NodeIPs = [50], IPRange = ''192.168.102.200-192.168.102.219''\<rparr>)"
  by code_simp

lemma afterFirstCluster_indexes:
  "usedRanges afterFirstCluster = {''192.168.102.200-219''}
   \<and> allNodeIPs afterFirstCluster = {50}"
  by code_simp

lemma afterFirstCluster_window:
  "minOctetRange afterFirstCluster = 200 \<and> maxOctetRange afterFirstCluster = 254"
  by code_simp

lemma second_cluster_range:
  "generateMetalLBIPRange afterFirstCluster ''demo-2'' ''192.168.102.51'' 2 2 (Some [51]) =
     Inr (''192.168.102.220-192.168.102.239'',
          \<lparr>ClusterName = ''demo-2'', IPPrefix = ''192.168.102'', StartOctet = 220,
           EndOctet = 239, NodeIPs = [51], IPRange = ''192.168.102.220-192.168.102.239''\<rparr>)"
  by code_simp

text \<open>
  C6. The candidate window of ordinal \<open>k\<close> starts at \<open>minOctetRange + (k - 1) * 20\<close> and
  ends 19 octets later, or at \<open>maxOctetRange\<close> if that is smaller. Whenever
  \<open>generateMetalLBIPRange\<close> succeeds, the range it returns is the text
  \<open>prefix.start-prefix.end\<close> of the allocation it returns, the prefix being the first three
  components of the node address; and when the candidate's key is not recorded and no
  known node IP lies in the candidate window, the allocation is the candidate window.
\<close>

theorem candidate_window_and_range_string:
  assumes ok: "generateMetalLBIPRange mm clusterName minikubeIP clusterNumber totalClusters nodeQuery
                 = Inr (ipRange, a)"
  shows "candidateWindow mm clusterNumber =
           (minOctetRange mm + (clusterNumber - 1) * 20,
            min (minOctetRange mm + (clusterNumber - 1) * 20 + 19) (maxOctetRange mm))
       \<and> ipRange = IPPrefix a @ ''.'' @ fmt_d (StartOctet a) @ ''-'' @ IPPrefix a @ ''.''
                      @ fmt_d (EndOctet a)
       \<and> IPRange a = ipRange
       \<and> IPPrefix a = Split minikubeIP CHR ''.'' ! 0 @ ''.'' @ Split minikubeIP CHR ''.'' ! 1
                         @ ''.'' @ Split minikubeIP CHR ''.'' ! 2
       \<and> (rangeKey (IPPrefix a) (fst (candidateWindow mm clusterNumber))
               (snd (candidateWindow mm clusterNumber)) \<notin> usedRanges mm
            \<and> \<not> hasNodeIPIn (allNodeIPs mm \<union> set (NodeIPs a))
                  (fst (candidateWindow mm clusterNumber)) (snd (candidateWindow mm clusterNumber))
          \<longrightarrow> (StartOctet a, EndOctet a) = candidateWindow mm clusterNumber)"
proof -
  obtain s e where w: "candidateWindow mm clusterNumber = (s, e)"
    by (cases "candidateWindow mm clusterNumber")
  show ?thesis
    using ok w adjust_no_overlap candidateWindow_eq [of mm clusterNumber]
    by (auto simp: generateMetalLBIPRange_def Let_def split: if_splits prod.splits)
qed

text \<open>The two scenarios of the specification: ordinal 1 of 2 on an empty ledger, and
  ordinal 2 once ordinal 1 is recorded, where the candidate's key is not in \<open>usedRanges\<close>
  and no node IP lies in the window, so that neither search runs.\<close>

theorem candidate_window_and_range_string_witness:
  "generateMetalLBIPRange exampleManager ''demo-1'' ''192.168.102.50'' 1 2 (Some [50]) =
     Inr (''192.168.102.200-192.168.102.219'',
          \<lparr>ClusterName = ''demo-1'', IPPrefix = ''192.168.102'', StartOctet = 200,
           EndOctet = 219, NodeIPs = [50], IPRange = ''192.168.102.200-192.168.102.219''\<rparr>)
   \<and> candidateWindow exampleManager 1 = (200, 219)
   \<and> usedRanges afterFirstCluster = {''192.168.102.200-219''}
   \<and> generateMetalLBIPRange afterFirstCluster ''demo-2'' ''192.168.102.51'' 2 2 (Some [51]) =
     Inr (''192.168.102.220-192.168.102.239'',
          \<lparr>ClusterName = ''demo-2'', IPPrefix = ''192.168.102'', StartOctet = 220,
           EndOctet = 239, NodeIPs = [51], IPRange = ''192.168.102.220-192.168.102.239''\<rparr>)
   \<and> candidateWindow afterFirstCluster 2 = (220, 239)
   \<and> rangeKey ''192.168.102'' 220 239 \<notin> usedRanges afterFirstCluster
   \<and> \<not> hasNodeIPIn (allNodeIPs afterFirstCluster \<union> {51}) 220 239"
proof -
  have k: "rangeKey ''192.168.102'' 220 239 \<notin> usedRanges afterFirstCluster"
    unfolding afterFirstCluster_indexes [THEN conjunct1] by code_simp
  have n: "\<not> hasNodeIPIn (allNodeIPs afterFirstCluster \<union> {51}) 220 239"
    unfolding afterFirstCluster_indexes [THEN conjunct2] by code_simp
  have w1: "candidateWindow exampleManager 1 = (200, 219)"
    using candidate_window_and_range_string [OF first_cluster_range, THEN conjunct1]
    by (simp add: exampleManager_def)
  have w2: "candidateWindow afterFirstCluster 2 = (220, 239)"
    using candidate_window_and_range_string [OF second_cluster_range, THEN conjunct1]
    by (simp add: afterFirstCluster_window)
  show ?thesis
    by (intro conjI first_cluster_range second_cluster_range w1 w2 k n
          afterFirstCluster_indexes [THEN conjunct1])
qed

subsection \<open>Recorded ranges and the node-IP shift\<close>

text \<open>
  C1 does not hold of the code. \<open>generateMetalLBIPRange\<close> compares range keys for equality
  only, and the shift of \<open>adjustRangeForNodeIPs\<close> looks at node IPs alone. First run: the
  first cluster's node sits at \<open>.200\<close>, the window is shifted to \<open>[201, 220]\<close> and
  recorded. The second cluster then gets its candidate \<open>[220, 239]\<close>, whose key is new,
  and the two recorded intervals share the octet 220; no search ran out of attempts.
  Second run: with the key \<open>192.168.102.221-240\<close> recorded and a node at \<open>.220\<close>, the
  candidate \<open>[220, 239]\<close> of ordinal 2 has an unused key, is shifted once because of the
  node IP, and the returned window \<open>[221, 240]\<close> has exactly the recorded key.
\<close>

theorem recorded_ranges_can_overlap:
  "map (\<lambda>a. (StartOctet a, EndOctet a)) (persisted afterNodeAtWindowStart ''demo'') = [(201, 220)]
   \<and> usedRanges afterNodeAtWindowStart = {''192.168.102.201-220''}
   \<and> adjustLoop 10 exampleManager {200} 200 219 20 = Found 201 220
   \<and> generateMetalLBIPRange afterNodeAtWindowStart ''demo-2'' ''192.168.102.150'' 2 2 (Some [150]) =
       Inr (''192.168.102.220-192.168.102.239'',
            \<lparr>ClusterName = ''demo-2'', IPPrefix = ''192.168.102'', StartOctet = 220,
             EndOctet = 239, NodeIPs = [150], IPRange = ''192.168.102.220-192.168.102.239''\<rparr>)
   \<and> rangeKey ''192.168.102'' 220 239 \<notin> usedRanges afterNodeAtWindowStart
   \<and> list_all (\<lambda>a. overlapping a
          \<lparr>ClusterName = ''demo-2'', IPPrefix = ''192.168.102'', StartOctet = 220,
           EndOctet = 239, NodeIPs = [150], IPRange = ''192.168.102.220-192.168.102.239''\<rparr>)
        (persisted afterNodeAtWindowStart ''demo'')
   \<and> map (\<lambda>a. (ClusterName a, StartOctet a, EndOctet a))
        (persisted (snd (ConfigureMetalLB afterNodeAtWindowStart True (Some [150]) True ''demo-2''
                           ''192.168.102.150'' 2 2 ''demo'')) ''demo'')
       = [(''demo-1'', 201, 220), (''demo-2'', 220, 239)]
   \<and> generateMetalLBIPRange (exampleManager\<lparr>usedRanges := {''192.168.102.221-240''}\<rparr>)
        ''demo-2'' ''192.168.102.220'' 2 2 (Some [220]) =
       Inr (''192.168.102.221-192.168.102.240'',
            \<lparr>ClusterName = ''demo-2'', IPPrefix = ''192.168.102'', StartOctet = 221,
             EndOctet = 240, NodeIPs = [220], IPRange = ''192.168.102.221-192.168.102.240''\<rparr>)
   \<and> rangeKey ''192.168.102'' 220 239 \<notin> {''192.168.102.221-240''}
   \<and> adjustLoop 10 exampleManager {220} 220 239 20 = Found 221 240
   \<and> rangeKey ''192.168.102'' 221 240 \<in> {''192.168.102.221-240''}"
  by code_simp

subsection \<open>Round trip of the ledger through persistence\<close>









subsection \<open>Control-plane port selection\<close>

lemma scanPorts_None:
  "scanPorts avail port lastPort = None \<longleftrightarrow> (\<forall>q. port \<le> q \<and> q \<le> lastPort \<longrightarrow> \<not> avail q)"
proof (induction avail port lastPort rule: scanPorts.induct)
  case (1 avail port lastPort)
  show ?case
  proof (cases "port > lastPort")
    case True
    then show ?thesis by (auto simp: scanPorts.simps [of avail port])
  next
    case False
    show ?thesis
    proof (cases "avail port")
      case True
      with False show ?thesis by (auto simp: scanPorts.simps [of avail port])
    next
      case free: False
      have "(\<forall>q. port \<le> q \<and> q \<le> lastPort \<longrightarrow> \<not> avail q)
              \<longleftrightarrow> (\<forall>q. port + 1 \<le> q \<and> q \<le> lastPort \<longrightarrow> \<not> avail q)"
      proof
        assume "\<forall>q. port \<le> q \<and> q \<le> lastPort \<longrightarrow> \<not> avail q"
        then show "\<forall>q. port + 1 \<le> q \<and> q \<le> lastPort \<longrightarrow> \<not> avail q" by auto
      next
        assume r: "\<forall>q. port + 1 \<le> q \<and> q \<le> lastPort \<longrightarrow> \<not> avail q"
        show "\<forall>q. port \<le> q \<and> q \<le> lastPort \<longrightarrow> \<not> avail q"
        proof (intro allI impI)
          fix q assume "port \<le> q \<and> q \<le> lastPort"
          then have "q = port \<or> (port + 1 \<le> q \<and> q \<le> lastPort)" by arith
          with r free show "\<not> avail q" by auto
        qed
      qed
      with 1 False free show ?thesis
        by (simp add: scanPorts.simps [of avail port])
    qed
  qed
qed

lemma scanPorts_first:
  "port \<le> p \<Longrightarrow> p \<le> lastPort \<Longrightarrow> avail p \<Longrightarrow> (\<forall>q. port \<le> q \<and> q < p \<longrightarrow> \<not> avail q)
     \<Longrightarrow> scanPorts avail port lastPort = Some p"
proof (induction avail port lastPort rule: scanPorts.induct)
  case (1 avail port lastPort)
  show ?case
  proof (cases "port = p")
    case True
    with 1(2-4) show ?thesis by (simp add: scanPorts.simps [of avail p])
  next
    case False
    with 1 have lt: "port < p" and free: "\<not> avail port" by auto
    have "scanPorts avail (port + 1) lastPort = Some p"
      using 1 lt free by auto
    with 1 lt free show ?thesis by (simp add: scanPorts.simps [of avail port])
  qed
qed

text \<open>
  C9. The preferred port \<open>7000 + clusterIndex\<close> is returned whenever it can be bound.
  Otherwise the first bindable port of \<open>29000 .. 30100\<close>, scanned upwards, is returned, and
  the call fails exactly when the preferred port and every port of that window cannot be
  bound.
\<close>

theorem getAvailablePortPrefix_selection:
  "(avail (KindControlPlanePort + clusterIndex) \<longrightarrow>
      getAvailablePortPrefix avail clusterIndex = Inr (fmt_d (KindControlPlanePort + clusterIndex)))
   \<and> (\<not> avail (KindControlPlanePort + clusterIndex) \<and> 29000 \<le> p \<and> p \<le> 30100 \<and> avail p
        \<and> (\<forall>q. 29000 \<le> q \<and> q < p \<longrightarrow> \<not> avail q) \<longrightarrow>
      getAvailablePortPrefix avail clusterIndex = Inr (fmt_d p))
   \<and> (getAvailablePortPrefix avail clusterIndex = Inl NoAvailablePorts \<longleftrightarrow>
        \<not> avail (KindControlPlanePort + clusterIndex)
        \<and> (\<forall>q. 29000 \<le> q \<and> q \<le> 30100 \<longrightarrow> \<not> avail q))"
proof (intro conjI impI)
  assume "avail (KindControlPlanePort + clusterIndex)"
  then show "getAvailablePortPrefix avail clusterIndex
      = Inr (fmt_d (KindControlPlanePort + clusterIndex))"
    by (simp add: getAvailablePortPrefix_def)
next
  assume a: "\<not> avail (KindControlPlanePort + clusterIndex) \<and> 29000 \<le> p \<and> p \<le> 30100 \<and> avail p
        \<and> (\<forall>q. 29000 \<le> q \<and> q < p \<longrightarrow> \<not> avail q)"
  then have "scanPorts avail 29000 30100 = Some p"
    by (intro scanPorts_first) auto
  with a show "getAvailablePortPrefix avail clusterIndex = Inr (fmt_d p)"
    by (simp add: getAvailablePortPrefix_def)
next
  show "getAvailablePortPrefix avail clusterIndex = Inl NoAvailablePorts \<longleftrightarrow>
        \<not> avail (KindControlPlanePort + clusterIndex)
        \<and> (\<forall>q. 29000 \<le> q \<and> q \<le> 30100 \<longrightarrow> \<not> avail q)"
    using scanPorts_None [of avail 29000 30100]
    by (auto simp: getAvailablePortPrefix_def Let_def split: option.splits)
qed

text \<open>Three hosts: one where port 7001 is free, one where only 29002 is free, and one
  where nothing can be bound.\<close>

theorem getAvailablePortPrefix_selection_witness:
  "getAvailablePortPrefix (\<lambda>port. port = 7001) 1 = Inr ''7001''
   \<and> getAvailablePortPrefix (\<lambda>port. port = 29002) 1 = Inr ''29002''
   \<and> getAvailablePortPrefix (\<lambda>port. False) 1 = Inl NoAvailablePorts"
proof -
  have f1: "fmt_d 7001 = ''7001''"
    by (simp add: fmt_eval)
  have f2: "fmt_d 29002 = ''29002''"
    by (simp add: fmt_eval)
  have s: "\<forall>q::int. 29000 \<le> q \<and> q < 29002 \<longrightarrow> q \<noteq> 29002"
    by simp
  have 1: "getAvailablePortPrefix (\<lambda>port. port = 7001) 1 = Inr ''7001''"
    using getAvailablePortPrefix_selection [of "\<lambda>port. port = 7001" 1 0, THEN conjunct1]
    by (simp add: KindControlPlanePort_def f1)
  have 2: "getAvailablePortPrefix (\<lambda>port. port = 29002) 1 = Inr ''29002''"
    using getAvailablePortPrefix_selection [of "\<lambda>port. port = 29002" 1 29002,
        THEN conjunct2, THEN conjunct1] s
    by (simp add: KindControlPlanePort_def f2)
  have 3: "getAvailablePortPrefix (\<lambda>port. False) 1 = Inl NoAvailablePorts"
    using getAvailablePortPrefix_selection [of "\<lambda>port. False" 1 0,
        THEN conjunct2, THEN conjunct2]
    by simp
  show ?thesis using 1 2 3 by simp
qed

subsection \<open>CIDR parameters\<close>

lemma maskBytes_numeral:
  "maskBytes n (numeral k) =
     (if 8 \<le> n then 255 # maskBytes (n - 8) (pred_numeral k)
      else NOT (drop_bit n (255 :: byte)) # maskBytes 0 (pred_numeral k))"
  by (simp add: numeral_eq_Suc)

lemma maskBytes_1:
  "maskBytes n 1 = (if 8 \<le> n then [255] else [NOT (drop_bit n (255 :: byte))])"
  by simp

lemmas mask_eval = CIDRMask_def maskBytes_numeral maskBytes_1

lemma prefix_cases:
  assumes "0 \<le> p" "p \<le> (32 :: int)"
  shows "p = 0 \<or> p = 1 \<or> p = 2 \<or> p = 3 \<or> p = 4 \<or> p = 5 \<or> p = 6 \<or> p = 7 \<or> p = 8
    \<or> p = 9 \<or> p = 10 \<or> p = 11 \<or> p = 12 \<or> p = 13 \<or> p = 14 \<or> p = 15 \<or> p = 16
    \<or> p = 17 \<or> p = 18 \<or> p = 19 \<or> p = 20 \<or> p = 21 \<or> p = 22 \<or> p = 23 \<or> p = 24
    \<or> p = 25 \<or> p = 26 \<or> p = 27 \<or> p = 28 \<or> p = 29 \<or> p = 30 \<or> p = 31 \<or> p = 32"
  using assms by arith

text \<open>The IPv4 masks: four bytes, of the given length; up to \<open>/30\<close> the two low bits of
  the last byte are clear.\<close>

lemma CIDRMask_32:
  assumes "0 \<le> p" "p \<le> (32 :: int)"
  shows "\<exists>m0 m1 m2 m3. CIDRMask p 32 = [m0, m1, m2, m3]
           \<and> (p \<le> 30 \<longrightarrow> unat m3 \<le> 252 \<and> 3 \<le> unat (NOT m3))"
  using prefix_cases [OF assms]
  by (elim disjE) (simp_all add: mask_eval)

lemma simpleMaskLength_CIDRMask_32:
  assumes "0 \<le> p" "p \<le> (32 :: int)"
  shows "simpleMaskLength (CIDRMask p 32) = p"
  using prefix_cases [OF assms]
  by (elim disjE; hypsubst; code_simp)

lemma low_two_bits:
  fixes d m3 :: byte
  assumes "unat m3 \<le> 252" "3 \<le> unat (NOT m3)"
  shows "unat (d AND m3) \<le> 252" and "3 \<le> unat ((d AND m3) OR NOT m3)"
proof -
  have "d AND m3 \<le> m3" by (rule word_and_le1)
  then show "unat (d AND m3) \<le> 252"
    using assms(1) by (simp add: word_le_nat_alt)
  have "NOT m3 \<le> (d AND m3) OR NOT m3" by (rule le_word_or1)
  then show "3 \<le> unat ((d AND m3) OR NOT m3)"
    using assms(2) by (simp add: word_le_nat_alt)
qed

lemma unat_succ_byte: "unat (x :: byte) \<le> 252 \<Longrightarrow> unat (x + 1) = unat x + 1"
  by (simp add: unat_word_ariths)

lemma unat_succ2_byte: "unat (x :: byte) \<le> 252 \<Longrightarrow> unat (x + 1 + 1) = unat x + 2"
  by (simp add: unat_word_ariths)

lemma unat_pred2_byte: "3 \<le> unat (x :: byte) \<Longrightarrow> unat (x - 1 - 1) + 2 = unat x"
proof -
  assume a: "3 \<le> unat x"
  have "(2 :: byte) \<le> x" using a by (simp add: word_le_nat_alt)
  then have "unat (x - 2) = unat x - unat (2 :: byte)" by (rule unat_sub)
  moreover have "x - 1 - 1 = x - 2" by simp
  ultimately show ?thesis using a by simp
qed

lemma length_those: "those xs = Some ys \<Longrightarrow> length ys = length xs"
  by (induction xs arbitrary: ys) (auto split: option.splits)

lemma parseIPv4_length: "parseIPv4 s = Some b \<Longrightarrow> length b = 4"
  by (auto simp: parseIPv4_def Let_def split: if_splits dest: length_those)

lemma length_groupBytes: "length (groupBytes gs) = 2 * length gs"
  by (induction gs) (auto simp: groupBytes_def)

lemma parseIPv6_length: "parseIPv6 s = Some b \<Longrightarrow> length b = 16"
  by (auto simp: parseIPv6_def length_groupBytes split: if_splits option.splits prod.splits)

lemma length_maskBytes: "length (maskBytes n l) = l"
  by (induction l arbitrary: n) auto

lemma length_map2_and: "length (map2 (AND) (xs :: byte list) ys) = min (length xs) (length ys)"
  by simp

lemma dtoiFrom_inv:
  "dtoiFrom n i s = (r, j, True) \<Longrightarrow> 0 \<le> n \<Longrightarrow> 0 \<le> r"
  by (induction n i s rule: dtoiFrom.induct) (auto simp: Let_def split: if_splits)

text \<open>What \<open>ParseCIDR\<close> returns for IPv4 text: the address bytes masked by the mask of the
  prefix length.\<close>

lemma ParseCIDR_v4:
  assumes "ParseCIDR s = Some (ip, ipNet)" "length (IP ipNet) = 4"
  shows "\<exists>a b c d p. 0 \<le> p \<and> p \<le> 32
           \<and> ipNet = \<lparr>IP = map2 (AND) [a, b, c, d] (CIDRMask p 32), Mask = CIDRMask p 32\<rparr>"
proof -
  from assms(1) obtain addrText maskText a n i where
    cut: "Cut s CHR ''/'' = Some (addrText, maskText)" and
    pa: "parseAddr addrText = Some a" and
    dt: "dtoi maskText = (n, i, True)" and
    n: "0 \<le> n" "n \<le> BitLen a" and
    net: "ipNet = \<lparr>IP = IP_Mask (As16 a) (CIDRMask n (BitLen a)), Mask = CIDRMask n (BitLen a)\<rparr>"
    by (auto simp: ParseCIDR_def Let_def split: option.splits prod.splits if_splits)
  show ?thesis
  proof (cases a)
    case (Addr4 bs)
    then have "parseIPv4 addrText = Some bs"
      using pa by (auto simp: parseAddr_def split: option.splits if_splits)
    then have "length bs = 4" by (rule parseIPv4_length)
    then obtain a0 b0 c0 d0 where bs: "bs = [a0, b0, c0, d0]"
      by (cases bs; cases "tl bs"; cases "tl (tl bs)"; cases "tl (tl (tl bs))") auto
    have lm: "length (CIDRMask n 32) = 4"
      using n Addr4 by (simp add: CIDRMask_def length_maskBytes)
    have "IP_Mask (As16 a) (CIDRMask n 32) = map2 (AND) [a0, b0, c0, d0] (CIDRMask n 32)"
      using lm by (simp add: IP_Mask_def Addr4 bs Let_def v4InV6Prefix_def)
    with net n Addr4 show ?thesis
      by (intro exI [of _ a0] exI [of _ b0] exI [of _ c0] exI [of _ d0] exI [of _ n]) simp
  next
    case (Addr6 bs)
    then have "parseIPv6 addrText = Some bs"
      using pa by (auto simp: parseAddr_def split: option.splits if_splits)
    then have lb: "length bs = 16" by (rule parseIPv6_length)
    have lm: "length (CIDRMask n 128) = 16"
      using n Addr6 by (simp add: CIDRMask_def length_maskBytes)
    have "length (IP ipNet) \<noteq> 4"
      using lm lb net Addr6 by (auto simp: IP_Mask_def Let_def split: if_splits)
    with assms(2) show ?thesis by simp
  qed
qed

text \<open>
  C3, as the code has it. For every IPv4 CIDR \<open>calculateSubnetParameters\<close> changes the
  last byte only: the gateway is the network address with its last byte plus one, the
  first client address the gateway with its last byte plus one, the broadcast address the
  network address with the bits outside the mask set, and the last client address the
  broadcast address with its last byte minus two, each modulo 256. For a prefix length of
  at most 30 no carry or borrow is lost, and as 32-bit numbers gateway = network + 1,
  clientMin = gateway + 1 and clientMax = broadcast - 2.
\<close>

theorem subnet_parameters:
  assumes parsed: "ParseCIDR s = Some (ip, ipNet)"
    and v4: "length (IP ipNet) = 4"
  shows "\<exists>params. calculateSubnetParameters ipNet = Inr params
           \<and> NetworkIP params = IP_String (IP ipNet)
           \<and> Gateway params = IP_String (gatewayIP ipNet)
           \<and> ClientMin params = IP_String (clientMinIP ipNet)
           \<and> ClientMax params = IP_String (clientMaxIP ipNet)
           \<and> Broadcast params = IP_String (broadcastIP ipNet)
           \<and> gatewayIP ipNet = (IP ipNet)[3 := IP ipNet ! 3 + 1]
           \<and> clientMinIP ipNet = (gatewayIP ipNet)[3 := gatewayIP ipNet ! 3 + 1]
           \<and> broadcastIP ipNet = map2 (OR) (IP ipNet) (map NOT (Mask ipNet))
           \<and> clientMaxIP ipNet = (broadcastIP ipNet)[3 := broadcastIP ipNet ! 3 - 2]
           \<and> unat (gatewayIP ipNet ! 3) = (unat (IP ipNet ! 3) + 1) mod 256
           \<and> unat (clientMinIP ipNet ! 3) = (unat (gatewayIP ipNet ! 3) + 1) mod 256
           \<and> unat (clientMaxIP ipNet ! 3) = (unat (broadcastIP ipNet ! 3) + 254) mod 256
           \<and> (fst (Size (Mask ipNet)) \<le> 30 \<longrightarrow>
                addrValue (gatewayIP ipNet) = addrValue (IP ipNet) + 1
                \<and> addrValue (clientMinIP ipNet) = addrValue (gatewayIP ipNet) + 1
                \<and> addrValue (clientMaxIP ipNet) + 2 = addrValue (broadcastIP ipNet))"
proof -
  from ParseCIDR_v4 [OF parsed v4] obtain a b c d p where
    p: "0 \<le> p" "p \<le> 32" and
    net: "ipNet = \<lparr>IP = map2 (AND) [a, b, c, d] (CIDRMask p 32), Mask = CIDRMask p 32\<rparr>"
    by blast
  have sz: "simpleMaskLength (Mask ipNet) = p"
    using simpleMaskLength_CIDRMask_32 [OF p] net by simp
  from CIDRMask_32 [OF p] obtain m0 m1 m2 m3 where
    m: "CIDRMask p 32 = [m0, m1, m2, m3]"
    and lo: "p \<le> 30 \<longrightarrow> unat m3 \<le> 252 \<and> 3 \<le> unat (NOT m3)"
    by blast
  let ?n = "d AND m3"
  have ip: "IP ipNet = [a AND m0, b AND m1, c AND m2, ?n]" and mask: "Mask ipNet = [m0, m1, m2, m3]"
    using net m by simp_all
  have sub: "subnetIP ipNet = [a AND m0, b AND m1, c AND m2, ?n]"
    by (simp add: subnetIP_def To4_def ip)
  have gw: "gatewayIP ipNet = [a AND m0, b AND m1, c AND m2, ?n + 1]"
    by (simp add: gatewayIP_def incLast_def sub)
  have cmin: "clientMinIP ipNet = [a AND m0, b AND m1, c AND m2, ?n + 1 + 1]"
    by (simp add: clientMinIP_def incLast_def gw)
  have bc: "broadcastIP ipNet =
      [(a AND m0) OR NOT m0, (b AND m1) OR NOT m1, (c AND m2) OR NOT m2, ?n OR NOT m3]"
    by (simp add: broadcastIP_def sub mask upt_rec_numeral)
  have cmax: "clientMaxIP ipNet =
      [(a AND m0) OR NOT m0, (b AND m1) OR NOT m1, (c AND m2) OR NOT m2, (?n OR NOT m3) - 1 - 1]"
    by (simp add: clientMaxIP_def decLast_def bc)
  have two: "x - 1 - 1 = x - 2" for x :: byte by simp
  have u1: "unat (x + 1) = (unat x + 1) mod 256" for x :: byte
    by (simp add: unat_word_ariths)
  have u2: "unat (x - 2) = (unat x + 254) mod 256" for x :: byte
  proof -
    have e: "x - 2 = x + 254" by simp
    have "unat (x + 254) = (unat x + unat (254 :: byte)) mod 2 ^ LENGTH(8)"
      by (rule unat_word_ariths)
    then show ?thesis unfolding e by simp
  qed
  have shape: "gatewayIP ipNet = (IP ipNet)[3 := IP ipNet ! 3 + 1]
      \<and> clientMinIP ipNet = (gatewayIP ipNet)[3 := gatewayIP ipNet ! 3 + 1]
      \<and> broadcastIP ipNet = map2 (OR) (IP ipNet) (map NOT (Mask ipNet))
      \<and> clientMaxIP ipNet = (broadcastIP ipNet)[3 := broadcastIP ipNet ! 3 - 2]"
    by (simp add: gw cmin bc cmax ip mask two)
  have wrap: "unat (gatewayIP ipNet ! 3) = (unat (IP ipNet ! 3) + 1) mod 256
      \<and> unat (clientMinIP ipNet ! 3) = (unat (gatewayIP ipNet ! 3) + 1) mod 256
      \<and> unat (clientMaxIP ipNet ! 3) = (unat (broadcastIP ipNet ! 3) + 254) mod 256"
    using u1 [of ?n] u1 [of "?n + 1"] u2 [of "?n OR NOT m3"]
    by (simp add: gw cmin bc cmax ip two)
  have arith: "addrValue (gatewayIP ipNet) = addrValue (IP ipNet) + 1
      \<and> addrValue (clientMinIP ipNet) = addrValue (gatewayIP ipNet) + 1
      \<and> addrValue (clientMaxIP ipNet) + 2 = addrValue (broadcastIP ipNet)"
    if short: "fst (Size (Mask ipNet)) \<le> 30"
  proof -
    have "p \<le> 30"
      using short sz p by (simp add: Size_def split: if_splits)
    with lo have lo': "unat m3 \<le> 252" "3 \<le> unat (NOT m3)" by simp_all
    note bits = low_two_bits [OF lo', of d]
    have 1: "addrValue (gatewayIP ipNet) = addrValue (IP ipNet) + 1"
      using unat_succ_byte [OF bits(1)] by (simp add: addrValue_def gw ip)
    have 2: "addrValue (clientMinIP ipNet) = addrValue (gatewayIP ipNet) + 1"
      using unat_succ_byte [OF bits(1)] unat_succ2_byte [OF bits(1)]
      by (simp add: addrValue_def gw cmin)
    have 3: "addrValue (clientMaxIP ipNet) + 2 = addrValue (broadcastIP ipNet)"
      using unat_pred2_byte [OF bits(2)] by (simp add: addrValue_def bc cmax)
    from 1 2 3 show ?thesis by simp
  qed
  have calc: "calculateSubnetParameters ipNet = Inr
      \<lparr>NetworkIP = IP_String (subnetIP ipNet),
       Netmask = Join (map (\<lambda>b. fmt_nat (unat b)) (take 4 (Mask ipNet))) ''.'',
       Prefix = fst (Size (Mask ipNet)),
       CIDR = IPNet_String ipNet,
       Gateway = IP_String (gatewayIP ipNet),
       ClientMin = IP_String (clientMinIP ipNet),
       ClientMax = IP_String (clientMaxIP ipNet),
       Broadcast = IP_String (broadcastIP ipNet),
       IsPrivate = isPrivateIP (subnetIP ipNet)\<rparr>"
    by (simp add: calculateSubnetParameters_def sub mask)
  have same: "subnetIP ipNet = IP ipNet" using sub ip by simp
  have "\<exists>params. calculateSubnetParameters ipNet = Inr params
           \<and> NetworkIP params = IP_String (IP ipNet)
           \<and> Gateway params = IP_String (gatewayIP ipNet)
           \<and> ClientMin params = IP_String (clientMinIP ipNet)
           \<and> ClientMax params = IP_String (clientMaxIP ipNet)
           \<and> Broadcast params = IP_String (broadcastIP ipNet)"
    unfolding calc same by simp
  then obtain params where c: "calculateSubnetParameters ipNet = Inr params"
    "NetworkIP params = IP_String (IP ipNet)"
    "Gateway params = IP_String (gatewayIP ipNet)"
    "ClientMin params = IP_String (clientMinIP ipNet)"
    "ClientMax params = IP_String (clientMaxIP ipNet)"
    "Broadcast params = IP_String (broadcastIP ipNet)"
    by (elim exE conjE)
  show ?thesis
  proof (rule exI [of _ params], intro conjI impI)
    show "calculateSubnetParameters ipNet = Inr params" by (rule c(1))
    show "NetworkIP params = IP_String (IP ipNet)" by (rule c(2))
    show "Gateway params = IP_String (gatewayIP ipNet)" by (rule c(3))
    show "ClientMin params = IP_String (clientMinIP ipNet)" by (rule c(4))
    show "ClientMax params = IP_String (clientMaxIP ipNet)" by (rule c(5))
    show "Broadcast params = IP_String (broadcastIP ipNet)" by (rule c(6))
    show "gatewayIP ipNet = (IP ipNet)[3 := IP ipNet ! 3 + 1]"
      by (rule shape [THEN conjunct1])
    show "clientMinIP ipNet = (gatewayIP ipNet)[3 := gatewayIP ipNet ! 3 + 1]"
      by (rule shape [THEN conjunct2, THEN conjunct1])
    show "broadcastIP ipNet = map2 (OR) (IP ipNet) (map NOT (Mask ipNet))"
      by (rule shape [THEN conjunct2, THEN conjunct2, THEN conjunct1])
    show "clientMaxIP ipNet = (broadcastIP ipNet)[3 := broadcastIP ipNet ! 3 - 2]"
      by (rule shape [THEN conjunct2, THEN conjunct2, THEN conjunct2])
    show "unat (gatewayIP ipNet ! 3) = (unat (IP ipNet ! 3) + 1) mod 256"
      by (rule wrap [THEN conjunct1])
    show "unat (clientMinIP ipNet ! 3) = (unat (gatewayIP ipNet ! 3) + 1) mod 256"
      by (rule wrap [THEN conjunct2, THEN conjunct1])
    show "unat (clientMaxIP ipNet ! 3) = (unat (broadcastIP ipNet ! 3) + 254) mod 256"
      by (rule wrap [THEN conjunct2, THEN conjunct2])
  next
    assume short: "fst (Size (Mask ipNet)) \<le> 30"
    show "addrValue (gatewayIP ipNet) = addrValue (IP ipNet) + 1"
      by (rule arith [OF short, THEN conjunct1])
    show "addrValue (clientMinIP ipNet) = addrValue (gatewayIP ipNet) + 1"
      by (rule arith [OF short, THEN conjunct2, THEN conjunct1])
    show "addrValue (clientMaxIP ipNet) + 2 = addrValue (broadcastIP ipNet)"
      by (rule arith [OF short, THEN conjunct2, THEN conjunct2])
  qed
qed

lemma example_subnet:
  "ParseCIDR ''10.89.0.0/16'' =
     Some (IPv4 10 89 0 0, \<lparr>IP = [10, 89, 0, 0], Mask = [255, 255, 0, 0]\<rparr>)"
  by code_simp

lemma example_parameters:
  "calculateSubnetParameters \<lparr>IP = [10, 89, 0, 0], Mask = [255, 255, 0, 0]\<rparr> =
     Inr \<lparr>NetworkIP = ''10.89.0.0'', Netmask = ''255.255.0.0'', Prefix = 16,
          CIDR = ''10.89.0.0/16'', Gateway = ''10.89.0.1'', ClientMin = ''10.89.0.2'',
          ClientMax = ''10.89.255.253'', Broadcast = ''10.89.255.255'', IsPrivate = True\<rparr>"
  by code_simp

text \<open>The scenario of the specification, \<open>10.89.0.0/16\<close>.\<close>

theorem subnet_parameters_witness:
  "ParseCIDR ''10.89.0.0/16'' =
     Some (IPv4 10 89 0 0, \<lparr>IP = [10, 89, 0, 0], Mask = [255, 255, 0, 0]\<rparr>)
   \<and> fst (Size [255, 255, 0, 0]) \<le> 30
   \<and> calculateSubnetParameters \<lparr>IP = [10, 89, 0, 0], Mask = [255, 255, 0, 0]\<rparr> =
       Inr \<lparr>NetworkIP = ''10.89.0.0'', Netmask = ''255.255.0.0'', Prefix = 16,
            CIDR = ''10.89.0.0/16'', Gateway = ''10.89.0.1'', ClientMin = ''10.89.0.2'',
            ClientMax = ''10.89.255.253'', Broadcast = ''10.89.255.255'', IsPrivate = True\<rparr>
   \<and> addrValue (gatewayIP \<lparr>IP = [10, 89, 0, 0], Mask = [255, 255, 0, 0]\<rparr>)
       = addrValue [10, 89, 0, 0] + 1
   \<and> addrValue (clientMinIP \<lparr>IP = [10, 89, 0, 0], Mask = [255, 255, 0, 0]\<rparr>)
       = addrValue (gatewayIP \<lparr>IP = [10, 89, 0, 0], Mask = [255, 255, 0, 0]\<rparr>) + 1
   \<and> addrValue (clientMaxIP \<lparr>IP = [10, 89, 0, 0], Mask = [255, 255, 0, 0]\<rparr>) + 2
       = addrValue (broadcastIP \<lparr>IP = [10, 89, 0, 0], Mask = [255, 255, 0, 0]\<rparr>)"
proof -
  have s: "fst (Size [255, 255, 0, 0]) \<le> 30"
    by code_simp
  have l: "length (IP \<lparr>IP = [10, 89, 0, 0], Mask = [255, 255, 0, 0 :: byte]\<rparr>) = 4"
    by simp
  have "addrValue (gatewayIP \<lparr>IP = [10, 89, 0, 0], Mask = [255, 255, 0, 0]\<rparr>)
       = addrValue [10, 89, 0, 0] + 1
   \<and> addrValue (clientMinIP \<lparr>IP = [10, 89, 0, 0], Mask = [255, 255, 0, 0]\<rparr>)
       = addrValue (gatewayIP \<lparr>IP = [10, 89, 0, 0], Mask = [255, 255, 0, 0]\<rparr>) + 1
   \<and> addrValue (clientMaxIP \<lparr>IP = [10, 89, 0, 0], Mask = [255, 255, 0, 0]\<rparr>) + 2
       = addrValue (broadcastIP \<lparr>IP = [10, 89, 0, 0], Mask = [255, 255, 0, 0]\<rparr>)"
    using subnet_parameters [OF example_subnet l] s by (elim exE conjE) simp
  then show ?thesis
    using s example_subnet example_parameters by simp
qed

text \<open>The claim as written fails for the longest prefixes. For \<open>10.0.0.255/32\<close> the
  gateway is \<open>10.0.0.0\<close>, not the address after the network address; for \<open>10.0.0.0/31\<close>
  the last client address is \<open>10.0.0.255\<close>, not the broadcast address \<open>10.0.0.1\<close> minus
  two.\<close>

theorem subnet_parameters_counterexample:
  "ParseCIDR ''10.0.0.255/32'' =
     Some (IPv4 10 0 0 255, \<lparr>IP = [10, 0, 0, 255], Mask = [255, 255, 255, 255]\<rparr>)
   \<and> map_sum id Gateway
        (calculateSubnetParameters \<lparr>IP = [10, 0, 0, 255], Mask = [255, 255, 255, 255]\<rparr>)
       = Inr ''10.0.0.0''
   \<and> addrValue (gatewayIP \<lparr>IP = [10, 0, 0, 255], Mask = [255, 255, 255, 255]\<rparr>)
       \<noteq> addrValue [10, 0, 0, 255] + 1
   \<and> ParseCIDR ''10.0.0.0/31'' =
     Some (IPv4 10 0 0 0, \<lparr>IP = [10, 0, 0, 0], Mask = [255, 255, 255, 254]\<rparr>)
   \<and> map_sum id (\<lambda>p. (Broadcast p, ClientMax p))
        (calculateSubnetParameters \<lparr>IP = [10, 0, 0, 0], Mask = [255, 255, 255, 254]\<rparr>)
       = Inr (''10.0.0.1'', ''10.0.0.255'')
   \<and> addrValue (clientMaxIP \<lparr>IP = [10, 0, 0, 0], Mask = [255, 255, 255, 254]\<rparr>) + 2
       \<noteq> addrValue (broadcastIP \<lparr>IP = [10, 0, 0, 0], Mask = [255, 255, 255, 254]\<rparr>)"
proof -
  have 1: "ParseCIDR ''10.0.0.255/32'' =
     Some (IPv4 10 0 0 255, \<lparr>IP = [10, 0, 0, 255], Mask = [255, 255, 255, 255]\<rparr>)"
    by code_simp
  have 2: "map_sum id Gateway
        (calculateSubnetParameters \<lparr>IP = [10, 0, 0, 255], Mask = [255, 255, 255, 255]\<rparr>)
       = Inr ''10.0.0.0''"
    by code_simp
  have 3: "addrValue (gatewayIP \<lparr>IP = [10, 0, 0, 255], Mask = [255, 255, 255, 255]\<rparr>)
       \<noteq> addrValue [10, 0, 0, 255] + 1"
    by (simp add: addrValue_def gatewayIP_def incLast_def subnetIP_def To4_def)
  have 4: "ParseCIDR ''10.0.0.0/31'' =
     Some (IPv4 10 0 0 0, \<lparr>IP = [10, 0, 0, 0], Mask = [255, 255, 255, 254]\<rparr>)"
    by code_simp
  have 5: "map_sum id (\<lambda>p. (Broadcast p, ClientMax p))
        (calculateSubnetParameters \<lparr>IP = [10, 0, 0, 0], Mask = [255, 255, 255, 254]\<rparr>)
       = Inr (''10.0.0.1'', ''10.0.0.255'')"
    by code_simp
  have 6: "addrValue (clientMaxIP \<lparr>IP = [10, 0, 0, 0], Mask = [255, 255, 255, 254]\<rparr>) + 2
       \<noteq> addrValue (broadcastIP \<lparr>IP = [10, 0, 0, 0], Mask = [255, 255, 255, 254]\<rparr>)"
    by (simp add: addrValue_def clientMaxIP_def decLast_def broadcastIP_def subnetIP_def To4_def
          upt_rec_numeral)
  show ?thesis
    by (intro conjI 1 2 3 4 5 6)
qed

subsection \<open>Dotted-quad text read back\<close>

lemma digit_cases:
  assumes "k < 10"
  shows "k = 0 \<or> k = 1 \<or> k = 2 \<or> k = 3 \<or> k = 4 \<or> k = 5 \<or> k = 6 \<or> k = 7 \<or> k = 8
    \<or> k = (9 :: nat)"
  using assms by arith

lemma digit_props:
  assumes "k < 10"
  shows "isDigit (digit k)" and "digitVal (digit k) = k"
    and "digit k \<notin> {CHR ''.'', CHR ''/'', CHR '':'', CHR ''%''}"
  using digit_cases [OF assms]
  by (auto simp: digit_def isDigit_def digitVal_def)

lemma decimal_lt_10: "d \<in> set (decimal n) \<Longrightarrow> d < 10"
proof (induction n rule: decimal.induct)
  case (1 n)
  then show ?case
    by (cases "n < 10") (auto simp: decimal.simps [of n])
qed

lemma fmt_nat_chars:
  assumes "c \<in> set (fmt_nat n)"
  shows "isDigit c" and "c \<notin> {CHR ''.'', CHR ''/'', CHR '':'', CHR ''%''}"
proof -
  from assms obtain k where "k < 10" "c = digit k"
    by (auto simp: fmt_nat_def dest: decimal_lt_10)
  then show "isDigit c" and "c \<notin> {CHR ''.'', CHR ''/'', CHR '':'', CHR ''%''}"
    using digit_props [of k] by simp_all
qed

lemma fmt_nat_1: "n < 10 \<Longrightarrow> fmt_nat n = [digit n]"
  by (simp add: fmt_nat_def decimal.simps [of n])

lemma decimal_step: "10 \<le> n \<Longrightarrow> decimal n = decimal (n div 10) @ [n mod 10]"
  by (subst decimal.simps) simp

lemma decimal_1: "n < 10 \<Longrightarrow> decimal n = [n]"
  by (subst decimal.simps) simp

lemma fmt_nat_2:
  assumes "10 \<le> n" "n < 100"
  shows "fmt_nat n = [digit (n div 10), digit (n mod 10)]"
proof -
  have "n div 10 < 10" using assms by simp
  then show ?thesis
    using assms by (simp add: fmt_nat_def decimal_step decimal_1)
qed

lemma int_div_mod_10: "int (n div 10) * 10 + int (n mod 10) = int n"
proof -
  have "int (n div 10 * 10 + n mod 10) = int n" by simp
  then show ?thesis by (simp only: of_nat_add of_nat_mult of_nat_numeral)
qed

lemma div_100: "(n :: nat) div 100 = n div 10 div 10"
  by (simp add: div_mult2_eq)

lemma fmt_nat_3:
  assumes "100 \<le> n" "n < 1000"
  shows "fmt_nat n = [digit (n div 100), digit (n div 10 mod 10), digit (n mod 10)]"
proof -
  have a: "10 \<le> n" "10 \<le> n div 10" "n div 10 div 10 < 10" using assms by simp_all
  have "decimal n = decimal (n div 10) @ [n mod 10]" using a(1) by (rule decimal_step)
  also have "decimal (n div 10) = decimal (n div 10 div 10) @ [n div 10 mod 10]"
    using a(2) by (rule decimal_step)
  also have "decimal (n div 10 div 10) = [n div 10 div 10]" using a(3) by (rule decimal_1)
  finally show ?thesis by (simp add: fmt_nat_def div_100)
qed

lemma octetFrom_fmt_nat:
  assumes "n < 256"
  shows "octetFrom 0 0 (fmt_nat n) = Some n"
proof -
  consider "n < 10" | "10 \<le> n" "n < 100" | "100 \<le> n" "n < 256" using assms by linarith
  then show ?thesis
  proof cases
    case 1
    then show ?thesis by (simp add: fmt_nat_1 digit_props)
  next
    case 2
    then have d: "n div 10 < 10" "n mod 10 < 10" "0 < n div 10" by auto
    have "n div 10 * 10 + n mod 10 = n" by simp
    with 2 d show ?thesis by (simp add: fmt_nat_2 digit_props)
  next
    case 3
    then have d: "n div 100 < 10" "n div 10 mod 10 < 10" "n mod 10 < 10" "0 < n div 100"
      by auto
    have e: "n div 100 * 10 + n div 10 mod 10 = n div 10"
      by (simp add: div_100)
    have f: "n div 10 * 10 + n mod 10 = n" by simp
    have g: "n div 10 \<le> 255" using 3 by simp
    from 3 d e f g show ?thesis by (simp add: fmt_nat_3 digit_props)
  qed
qed

lemma Split_no_sep: "sep \<notin> set xs \<Longrightarrow> Split xs sep = [xs]"
  by (induction xs) auto

lemma Split_append: "sep \<notin> set xs \<Longrightarrow> Split (xs @ sep # ys) sep = xs # Split ys sep"
  by (induction xs) auto

lemma Cut_append: "sep \<notin> set xs \<Longrightarrow> Cut (xs @ sep # ys) sep = Some (xs, ys)"
  by (induction xs) auto

lemma find_append_first:
  "\<forall>x \<in> set xs. \<not> P x \<Longrightarrow> P y \<Longrightarrow> find P (xs @ y # ys) = Some y"
  by (induction xs) auto

lemma dotted_4:
  "dotted [a, b, c, d] =
     fmt_nat (unat a) @ CHR ''.'' # fmt_nat (unat b) @ CHR ''.'' # fmt_nat (unat c) @ CHR ''.''
       # fmt_nat (unat d)"
  by (simp add: dotted_def)

lemma unat_byte_lt: "unat (b :: byte) < 256"
  using unsigned_less [of b, where 'a = nat] by simp

lemma parseIPv4_dotted: "parseIPv4 (dotted [a, b, c, d]) = Some [a, b, c, d]"
proof -
  have nodot: "CHR ''.'' \<notin> set (fmt_nat n)" for n
    using fmt_nat_chars(2) [of "CHR ''.''" n] by auto
  have "Split (dotted [a, b, c, d]) CHR ''.'' =
      [fmt_nat (unat a), fmt_nat (unat b), fmt_nat (unat c), fmt_nat (unat d)]"
    by (simp add: dotted_4 Split_append nodot Split_no_sep)
  then show ?thesis
    by (simp add: parseIPv4_def octetFrom_fmt_nat unat_byte_lt)
qed

lemma parseAddr_dotted: "parseAddr (dotted [a, b, c, d]) = Some (Addr4 [a, b, c, d])"
proof -
  have "\<forall>x \<in> set (fmt_nat (unat a)). \<not> x \<in> set ''.:%''"
    using fmt_nat_chars(2) by auto
  then have "find (\<lambda>c. c \<in> set ''.:%'') (dotted [a, b, c, d]) = Some CHR ''.''"
    unfolding dotted_4 by (intro find_append_first) simp_all
  then show ?thesis
    by (simp add: parseAddr_def parseIPv4_dotted)
qed

lemma To4_4: "To4 [a, b, c, d] = Some [a, b, c, d]"
  by (simp add: To4_def)

lemma To4_mapped: "To4 (v4InV6Prefix @ [a, b, c, d]) = Some [a, b, c, d]"
  by (simp add: To4_def v4InV6Prefix_def)

lemma IP_String_4: "IP_String [a, b, c, d] = dotted [a, b, c, d]"
  by (simp add: IP_String_def To4_4)

lemma ParseIP_String_4:
  "ParseIP (IP_String [a, b, c, d]) = Some (v4InV6Prefix @ [a, b, c, d])"
  by (simp add: ParseIP_def IP_String_4 parseAddr_dotted)

lemma fmt_d_nonneg: "0 \<le> p \<Longrightarrow> fmt_d p = fmt_nat (nat p)"
  by (simp add: fmt_d_def)

lemma dtoi_fmt_nat:
  assumes "n < 1000"
  shows "dtoi (fmt_nat n) = (int n, length (fmt_nat n), True)"
proof -
  consider "n < 10" | "10 \<le> n" "n < 100" | "100 \<le> n" "n < 1000" using assms by linarith
  then show ?thesis
  proof cases
    case 1
    then show ?thesis by (simp add: dtoi_def fmt_nat_1 digit_props)
  next
    case 2
    then have d: "n div 10 < 10" "n mod 10 < 10" by auto
    have "int (n div 10) * 10 + int (n mod 10) = int n"
      by (rule int_div_mod_10)
    with 2 d show ?thesis by (simp add: dtoi_def fmt_nat_2 digit_props)
  next
    case 3
    then have d: "n div 100 < 10" "n div 10 mod 10 < 10" "n mod 10 < 10" by auto
    have e: "n div 100 * 10 + n div 10 mod 10 = n div 10"
      by (simp add: div_100)
    have e': "int (n div 100) * 10 + int (n div 10 mod 10) = int (n div 10)"
      using int_div_mod_10 [of "n div 10"] by (simp add: div_100)
    have f: "int (n div 10) * 10 + int (n mod 10) = int n"
      by (rule int_div_mod_10)
    from 3 d e' f show ?thesis by (simp add: dtoi_def fmt_nat_3 digit_props)
  qed
qed

text \<open>The text of an IPv4 address and a prefix length is parsed to the network of that
  length, with the address masked.\<close>

lemma ParseCIDR_rendered:
  assumes "0 \<le> p" "p \<le> 32"
  shows "ParseCIDR (IP_String [a, b, c, d] @ ''/'' @ fmt_d p) =
     Some (v4InV6Prefix @ [a, b, c, d],
           \<lparr>IP = map2 (AND) [a, b, c, d] (CIDRMask p 32), Mask = CIDRMask p 32\<rparr>)"
proof -
  have noslash: "CHR ''/'' \<notin> set (dotted [a, b, c, d])"
    using fmt_nat_chars(2) [of "CHR ''/''"] by (auto simp: dotted_4)
  have cut: "Cut (IP_String [a, b, c, d] @ CHR ''/'' # fmt_d p) CHR ''/'' =
      Some (dotted [a, b, c, d], fmt_d p)"
    by (simp add: IP_String_4 Cut_append noslash)
  have dt: "dtoi (fmt_d p) = (p, length (fmt_d p), True)"
    using assms dtoi_fmt_nat [of "nat p"] by (simp add: fmt_d_nonneg)
  have lm: "length (CIDRMask p 32) = 4"
    using assms by (simp add: CIDRMask_def length_maskBytes)
  have "IP_Mask (v4InV6Prefix @ [a, b, c, d]) (CIDRMask p 32)
      = map2 (AND) [a, b, c, d] (CIDRMask p 32)"
    using lm by (simp add: IP_Mask_def Let_def v4InV6Prefix_def)
  then show ?thesis
    using assms by (simp add: ParseCIDR_def cut parseAddr_dotted dt Let_def)
qed

subsection \<open>Save, then initialise again\<close>
















end
